theory Spec2Isabelle
  imports Complex_Main
begin

section \<open>JavaScript values used by the server\<close>

text \<open>
  A call either returns a value or throws. \<open>Thrown\<close> carries the message of the
  exception.
\<close>

datatype 'a outcome = Returned 'a | Thrown string

text \<open>\<open>String.prototype.startsWith\<close>.\<close>

definition startsWith :: "string \<Rightarrow> string \<Rightarrow> bool" where
  "startsWith s p = (take (length p) s = p)"

text \<open>
  Truthiness of an optional string (\<open>undefined\<close> and the empty string are falsy) and
  the value of \<open>s || d\<close>.
\<close>

definition truthy :: "string option \<Rightarrow> bool" where
  "truthy s = (case s of None \<Rightarrow> False | Some v \<Rightarrow> v \<noteq> [])"

definition orElse :: "string option \<Rightarrow> string \<Rightarrow> string" where
  "orElse s d = (case s of None \<Rightarrow> d | Some v \<Rightarrow> if v = [] then d else v)"

text \<open>\<open>s || undefined\<close> for a string and for a number.\<close>

definition orUndefined :: "string option \<Rightarrow> string option" where
  "orUndefined s = (if truthy s then s else None)"

definition numOrUndefined :: "rat option \<Rightarrow> rat option" where
  "numOrUndefined n = (case n of None \<Rightarrow> None | Some v \<Rightarrow> if v = 0 then None else Some v)"

section \<open>Geolocation utility (src/Server/src/utils/geolocation.ts)\<close>

record LocationData =
  city :: "string option"
  region :: "string option"
  country :: "string option"
  latitude :: "rat option"
  longitude :: "rat option"
  location :: "string option"

text \<open>The JSON body of an answer of ip-api.com, restricted to the requested fields.\<close>

record IpApiData =
  apiStatus :: string
  apiMessage :: "string option"
  apiCountry :: "string option"
  apiCity :: "string option"
  apiLat :: "rat option"
  apiLon :: "rat option"
  apiRegionName :: "string option"

text \<open>
  What \<open>axios.get\<close> does on a URL: it rejects (network error, timeout after 5000 ms,
  non-2xx status) or resolves with a body.
\<close>

datatype http_outcome = HttpFailed string | HttpBody IpApiData

type_synonym http = "string \<Rightarrow> http_outcome"

definition localNetwork :: LocationData where
  "localNetwork = \<lparr> city = Some ''Local'', region = None, country = Some ''Local Network'',
     latitude = None, longitude = None, location = Some ''Local Network'' \<rparr>"

text \<open>The body of the \<open>try\<close> block: the request and the reading of its answer.\<close>

definition lookupLocation :: "http \<Rightarrow> string \<Rightarrow> (LocationData option) outcome" where
  "lookupLocation get ip =
     (case get (''http://ip-api.com/json/'' @ ip) of
        HttpFailed msg \<Rightarrow> Thrown msg
      | HttpBody d \<Rightarrow>
          if apiStatus d = ''success'' then
            Returned (Some \<lparr> city = orUndefined (apiCity d),
                             region = orUndefined (apiRegionName d),
                             country = orUndefined (apiCountry d),
                             latitude = numOrUndefined (apiLat d),
                             longitude = numOrUndefined (apiLon d),
                             location = Some (orElse (apiCity d) ''Unknown'' @ '', '' @
                                              orElse (apiCountry d) ''Unknown'') \<rparr>)
          else Returned None)"

text \<open>
  \<open>getLocationFromIP\<close> returns its result together with the list of URLs it requested.
  The guard \<open>!ipAddress\<close> holds for \<open>undefined\<close> and for the empty string. The
  \<open>catch\<close> clause turns every exception of the \<open>try\<close> block into \<open>null\<close>.
\<close>

definition getLocationFromIP :: "http \<Rightarrow> string option \<Rightarrow> (LocationData option) outcome \<times> string list" where
  "getLocationFromIP get ipAddress =
     (case ipAddress of
        None \<Rightarrow> (Returned (Some localNetwork), [])
      | Some ip \<Rightarrow>
          if ip = [] \<or> ip = ''::1'' \<or> ip = ''127.0.0.1'' \<or> startsWith ip ''192.168.'' \<or>
             startsWith ip ''10.'' \<or> startsWith ip ''172.''
          then (Returned (Some localNetwork), [])
          else
            (case lookupLocation get ip of
               Thrown msg \<Rightarrow> Returned None
             | Returned r \<Rightarrow> Returned r,
             [''http://ip-api.com/json/'' @ ip]))"

text \<open>
  \<open>isSuspiciousLocationChange\<close>. The haversine distance \<open>calculateDistance\<close> is
  floating-point trigonometry; the predicate is modelled over the distance function it is
  given.
\<close>

definition isSuspiciousLocationChange ::
  "(real \<Rightarrow> real \<Rightarrow> real \<Rightarrow> real \<Rightarrow> real) \<Rightarrow> real \<Rightarrow> real \<Rightarrow> real \<Rightarrow> real \<Rightarrow> real \<Rightarrow> bool" where
  "isSuspiciousLocationChange calculateDistance prevLat prevLon newLat newLon timeDiffMinutes =
     (let distance = calculateDistance prevLat prevLon newLat newLon in
      if distance > 500 \<and> timeDiffMinutes < 60 then True
      else if distance > 2000 \<and> timeDiffMinutes < 180 then True
      else False)"

section \<open>Dates\<close>

text \<open>
  A JavaScript \<open>Date\<close>, held by the calendar fields its setters work on: year, month
  (0 to 11), day of the month (1 to 31) and the milliseconds elapsed within the day, all
  in one fixed time zone without daylight saving.
\<close>

record Date =
  year :: int
  month :: int
  day :: int
  msOfDay :: int

definition isLeapYear :: "int \<Rightarrow> bool" where
  "isLeapYear y = (if y mod 4 \<noteq> 0 then False else if y mod 100 \<noteq> 0 then True
                   else if y mod 400 \<noteq> 0 then False else True)"

definition daysInMonth :: "int \<Rightarrow> int \<Rightarrow> int" where
  "daysInMonth y m =
     (if m = 1 then (if isLeapYear y then 29 else 28)
      else if m = 3 \<or> m = 5 \<or> m = 8 \<or> m = 10 then 30
      else 31)"

text \<open>
  ECMAScript \<open>MakeDay(year, month, date)\<close> followed by the reading of the calendar
  fields of the day it denotes: the month is first brought into 0 to 11 by carrying into
  the year, then a day of the month outside the month is carried into the neighbouring
  months, one month at a time.
\<close>

function normalizeDay :: "int \<Rightarrow> int \<Rightarrow> int \<Rightarrow> int \<times> int \<times> int" where
  "normalizeDay y m d =
     (if d < 1 then
        normalizeDay (if m = 0 then y - 1 else y) (if m = 0 then 11 else m - 1)
          (d + daysInMonth (if m = 0 then y - 1 else y) (if m = 0 then 11 else m - 1))
      else if d > daysInMonth y m then
        normalizeDay (if m = 11 then y + 1 else y) (if m = 11 then 0 else m + 1)
          (d - daysInMonth y m)
      else (y, m, d))"
  by pat_completeness auto
termination
  by (relation "measure (\<lambda>(y, m, d). if d < 1 then nat (33 - d) else nat d)")
     (auto simp: daysInMonth_def)

declare normalizeDay.simps [simp del]

definition makeDay :: "int \<Rightarrow> int \<Rightarrow> int \<Rightarrow> int \<times> int \<times> int" where
  "makeDay y m d = normalizeDay (y + m div 12) (m mod 12) d"

definition withDay :: "Date \<Rightarrow> int \<times> int \<times> int \<Rightarrow> Date" where
  "withDay dt ymd = (case ymd of (y, m, d) \<Rightarrow> dt\<lparr> year := y, month := m, day := d \<rparr>)"

text \<open>The getters and setters of \<open>Date\<close> that the billing service calls.\<close>

definition getDate :: "Date \<Rightarrow> int" where
  "getDate dt = day dt"

definition getMonth :: "Date \<Rightarrow> int" where
  "getMonth dt = month dt"

definition getFullYear :: "Date \<Rightarrow> int" where
  "getFullYear dt = year dt"

definition setDate :: "Date \<Rightarrow> int \<Rightarrow> Date" where
  "setDate dt d = withDay dt (makeDay (year dt) (month dt) d)"

definition setMonth :: "Date \<Rightarrow> int \<Rightarrow> Date" where
  "setMonth dt m = withDay dt (makeDay (year dt) m (day dt))"

definition setFullYear :: "Date \<Rightarrow> int \<Rightarrow> Date" where
  "setFullYear dt y = withDay dt (makeDay y (month dt) (day dt))"

text \<open>
  \<open>getTime\<close>: milliseconds since 1 January 1970, by ECMAScript's \<open>DayFromYear\<close> and
  the table of the first day of each month.
\<close>

definition dayFromYear :: "int \<Rightarrow> int" where
  "dayFromYear y = 365 * (y - 1970) + (y - 1969) div 4 - (y - 1901) div 100 + (y - 1601) div 400"

definition daysBeforeMonth :: "int \<Rightarrow> int \<Rightarrow> int" where
  "daysBeforeMonth y m =
     (let l = (if isLeapYear y then 1 else 0) in
      if m = 0 then 0 else if m = 1 then 31 else if m = 2 then 59 + l
      else if m = 3 then 90 + l else if m = 4 then 120 + l else if m = 5 then 151 + l
      else if m = 6 then 181 + l else if m = 7 then 212 + l else if m = 8 then 243 + l
      else if m = 9 then 273 + l else if m = 10 then 304 + l else 334 + l)"

definition getTime :: "Date \<Rightarrow> int" where
  "getTime dt =
     (dayFromYear (year dt) + daysBeforeMonth (year dt) (month dt) + (day dt - 1)) * 86400000
     + msOfDay dt"

text \<open>The comparisons \<open>a < b\<close> and \<open>a > b\<close> of two dates compare their time values.\<close>

definition dateLt :: "Date \<Rightarrow> Date \<Rightarrow> bool" where
  "dateLt a b = (getTime a < getTime b)"

section \<open>Billing service (src/Server/src/services/billing.service.ts)\<close>

datatype BillingCycle = DAILY | WEEKLY | MONTHLY | THREE_MONTHS | HALF_YEAR | YEARLY

text \<open>
  \<open>calculateCycleEndDate\<close>. The \<open>default\<close> branch of the switch throws for a value
  outside the enumeration; \<open>BillingCycle\<close> has no such value.
\<close>

fun calculateCycleEndDate :: "Date \<Rightarrow> BillingCycle \<Rightarrow> Date" where
  "calculateCycleEndDate startDate DAILY = setDate startDate (getDate startDate + 1)"
| "calculateCycleEndDate startDate WEEKLY = setDate startDate (getDate startDate + 7)"
| "calculateCycleEndDate startDate MONTHLY = setMonth startDate (getMonth startDate + 1)"
| "calculateCycleEndDate startDate THREE_MONTHS = setMonth startDate (getMonth startDate + 3)"
| "calculateCycleEndDate startDate HALF_YEAR = setMonth startDate (getMonth startDate + 6)"
| "calculateCycleEndDate startDate YEARLY = setFullYear startDate (getFullYear startDate + 1)"

section \<open>Data model (the Prisma schema)\<close>

text \<open>Row identifiers (\<open>cuid()\<close> strings in the schema) are numbers drawn from a counter.\<close>

type_synonym ident = nat

datatype UserRole = SUPER_ADMIN | ADMIN | SUPPORT | USER

datatype UserStatus = ACTIVE | SUSPENDED | DISABLED

datatype PaymentStatus = PAID | UNPAID | PENDING | REFUNDED

datatype SecurityAlertType =
  MULTIPLE_DEVICE_LOGIN | SUSPICIOUS_LOCATION | FORCED_LOGOUT | FAILED_LOGIN_ATTEMPT

datatype SecurityAlertSeverity = LOW | MEDIUM | HIGH | CRITICAL

text \<open>
  Values of the \<open>Json\<close> columns. A date stands for its ISO string, a cycle for its
  name, a number written by \<open>toString\<close> for its decimal string.
\<close>

datatype json =
  JNull | JString string | JNumber rat | JCount nat | JDate Date | JCycle BillingCycle | JId ident

record User =
  u_id :: ident
  u_email :: string
  u_passwordHash :: string
  u_role :: UserRole
  u_status :: UserStatus
  u_lastLoginAt :: "Date option"
  u_lastLoginIP :: "string option"
  u_currentSessionToken :: "string option"
  u_billingCycle :: "BillingCycle option"
  u_billingCycleStartDate :: "Date option"
  u_billingCycleEndDate :: "Date option"
  u_trialPeriodHours :: "int option"
  u_trialStartDate :: "Date option"
  u_trialEndDate :: "Date option"
  u_isTrialActive :: bool
  u_isBillingActive :: bool
  u_lastBillingCheckAt :: "Date option"
  u_createdAt :: Date
  u_updatedAt :: Date

record SessionActivity =
  sa_id :: ident
  sa_userId :: ident
  sa_sessionToken :: string
  sa_ipAddress :: "string option"
  sa_location :: "string option"
  sa_city :: "string option"
  sa_country :: "string option"
  sa_latitude :: "rat option"
  sa_longitude :: "rat option"
  sa_macAddress :: "string option"
  sa_deviceInfo :: "string option"
  sa_userAgent :: "string option"
  sa_loginAt :: Date
  sa_logoutAt :: "Date option"
  sa_lastActivityAt :: Date
  sa_isActive :: bool
  sa_logoutReason :: "string option"

record LoginHistory =
  lh_id :: ident
  lh_userId :: ident
  lh_email :: string
  lh_ipAddress :: "string option"
  lh_location :: "string option"
  lh_city :: "string option"
  lh_country :: "string option"
  lh_latitude :: "rat option"
  lh_longitude :: "rat option"
  lh_macAddress :: "string option"
  lh_deviceInfo :: "string option"
  lh_userAgent :: "string option"
  lh_success :: bool
  lh_failureReason :: "string option"
  lh_loginAt :: Date

record SecurityAlert =
  al_id :: ident
  al_userId :: "ident option"
  al_alertType :: SecurityAlertType
  al_severity :: SecurityAlertSeverity
  al_message :: string
  al_metadata :: "(string \<times> json) list"
  al_isRead :: bool
  al_isDismissed :: bool
  al_createdAt :: Date

record Payment =
  p_id :: ident
  p_userId :: ident
  p_amount :: rat
  p_billingCycle :: BillingCycle
  p_status :: PaymentStatus
  p_paymentDate :: Date
  p_cycleStartDate :: Date
  p_cycleEndDate :: Date
  p_memo :: "string option"
  p_createdBy :: "ident option"
  p_createdAt :: Date
  p_updatedAt :: Date

record BillingHistory =
  bh_id :: ident
  bh_userId :: ident
  bh_action :: string
  bh_details :: "(string \<times> json) list"
  bh_createdAt :: Date

text \<open>The database: one list of rows per table, in insertion order, and the counter of identifiers.\<close>

record Db =
  users :: "User list"
  sessionActivities :: "SessionActivity list"
  loginHistories :: "LoginHistory list"
  securityAlerts :: "SecurityAlert list"
  payments :: "Payment list"
  billingHistories :: "BillingHistory list"
  nextId :: ident

section \<open>Operations on the database\<close>

text \<open>
  \<open>AppError\<close> carries its message and HTTP status, \<open>PlainError\<close> is a JavaScript
  \<open>Error\<close>, \<open>StoreError\<close> is an exception of the database client.
\<close>

datatype error = AppError string nat | PlainError string | StoreError string

text \<open>
  An asynchronous operation runs on the database and ends with a value or an exception.
  There is no transaction anywhere in the services: what an operation wrote before it
  threw stays written, so the database is returned in both cases.
\<close>

type_synonym 'a io = "Db \<Rightarrow> (error + 'a) \<times> Db"

definition returnIO :: "'a \<Rightarrow> 'a io" where
  "returnIO a db = (Inr a, db)"

definition throwIO :: "error \<Rightarrow> 'a io" where
  "throwIO e db = (Inl e, db)"

definition bindIO :: "'a io \<Rightarrow> ('a \<Rightarrow> 'b io) \<Rightarrow> 'b io" where
  "bindIO m f db = (case m db of (Inl e, db') \<Rightarrow> (Inl e, db') | (Inr a, db') \<Rightarrow> f a db')"

text \<open>\<open>prisma.user.findUnique\<close> by identifier and by email.\<close>

definition userFindUnique :: "ident \<Rightarrow> Db \<Rightarrow> User option" where
  "userFindUnique i db = find (\<lambda>u. u_id u = i) (users db)"

definition userFindByEmail :: "string \<Rightarrow> Db \<Rightarrow> User option" where
  "userFindByEmail e db = find (\<lambda>u. u_email u = e) (users db)"

text \<open>
  \<open>prisma.user.update({where: {id}, data})\<close>: the row is rewritten by \<open>dat\<close>, its
  \<open>updatedAt\<close> column is stamped, and the new row is returned; the client throws when
  no row has the identifier.
\<close>

definition userUpdate :: "Date \<Rightarrow> ident \<Rightarrow> (User \<Rightarrow> User) \<Rightarrow> User io" where
  "userUpdate now i dat db =
     (case userFindUnique i db of
        None \<Rightarrow> (Inl (StoreError ''Record to update not found''), db)
      | Some u \<Rightarrow>
          (Inr ((dat u)\<lparr> u_updatedAt := now \<rparr>),
           db\<lparr> users := map (\<lambda>r. if u_id r = i then (dat r)\<lparr> u_updatedAt := now \<rparr> else r)
                             (users db) \<rparr>))"

definition billingHistoryCreate :: "Date \<Rightarrow> ident \<Rightarrow> string \<Rightarrow> (string \<times> json) list \<Rightarrow> BillingHistory io" where
  "billingHistoryCreate now userId action details db =
     (let row = \<lparr> bh_id = nextId db, bh_userId = userId, bh_action = action,
                   bh_details = details, bh_createdAt = now \<rparr>
      in (Inr row, db\<lparr> billingHistories := billingHistories db @ [row],
                          nextId := Suc (nextId db) \<rparr>))"

definition paymentCreate :: "Payment \<Rightarrow> Payment io" where
  "paymentCreate dat db =
     (let row = dat\<lparr> p_id := nextId db \<rparr>
      in (Inr row, db\<lparr> payments := payments db @ [row], nextId := Suc (nextId db) \<rparr>))"

section \<open>Billing operations (src/Server/src/services/billing.service.ts)\<close>

text \<open>
  \<open>addPayment\<close>. Every \<open>new Date()\<close> of one call reads the same instant \<open>now\<close>.
  \<open>memo || null\<close> stores an empty memo as null.
\<close>

definition addPayment ::
  "Date \<Rightarrow> ident \<Rightarrow> BillingCycle \<Rightarrow> rat \<Rightarrow> string option \<Rightarrow> ident option \<Rightarrow> (Payment \<times> User) io" where
  "addPayment now userId cycle amount memo adminId db =
     (case userFindUnique userId db of
        None \<Rightarrow> (Inl (AppError ''User not found'' 404), db)
      | Some user \<Rightarrow>
          (let paymentDate = now;
               cycleStart = (case u_billingCycleEndDate user of
                               None \<Rightarrow> paymentDate
                             | Some e \<Rightarrow> if dateLt paymentDate e then e else paymentDate);
               cycleEnd = calculateCycleEndDate cycleStart cycle
           in bindIO (paymentCreate
                        \<lparr> p_id = 0, p_userId = userId, p_amount = amount, p_billingCycle = cycle,
                          p_status = PAID, p_paymentDate = paymentDate,
                          p_cycleStartDate = cycleStart, p_cycleEndDate = cycleEnd,
                          p_memo = orUndefined memo, p_createdBy = adminId,
                          p_createdAt = now, p_updatedAt = now \<rparr>)
                (\<lambda>payment.
              bindIO (userUpdate now userId
                        (\<lambda>u. u\<lparr> u_billingCycle := Some cycle,
                                 u_billingCycleStartDate := Some cycleStart,
                                 u_billingCycleEndDate := Some cycleEnd,
                                 u_isBillingActive := True,
                                 u_isTrialActive := False,
                                 u_lastBillingCheckAt := Some now \<rparr>))
                (\<lambda>updatedUser.
              bindIO (billingHistoryCreate now userId ''PAYMENT_ADDED''
                        [(''paymentId'', JId (p_id payment)), (''amount'', JNumber amount),
                         (''cycle'', JCycle cycle),
                         (''memo'', case orUndefined memo of None \<Rightarrow> JNull | Some t \<Rightarrow> JString t),
                         (''cycleStartDate'', JDate cycleStart),
                         (''cycleEndDate'', JDate cycleEnd)])
                (\<lambda>_. returnIO (payment, updatedUser))))) db)"

text \<open>
  \<open>getUserBillingStatus\<close>. The answer carries the user row and the ten latest payments
  of the user (the source copies a fixed choice of their columns), the expiry flag, the
  days remaining and the message.
\<close>

fun showNat :: "nat \<Rightarrow> string" where
  "showNat n = (if n < 10 then [char_of (48 + n)]
                else showNat (n div 10) @ [char_of (48 + n mod 10)])"

definition showInt :: "int \<Rightarrow> string" where
  "showInt i = (if i < 0 then CHR ''-'' # showNat (nat (- i)) else showNat (nat i))"

text \<open>\<open>Math.ceil(diff / (1000 * 60 * 60 * 24))\<close> for a whole number of milliseconds.\<close>

definition ceilDays :: "int \<Rightarrow> int" where
  "ceilDays diff = - ((- diff) div (1000 * 60 * 60 * 24))"

record BillingStatus =
  bs_user :: User
  bs_isExpired :: bool
  bs_daysRemaining :: "int option"
  bs_statusMessage :: string
  bs_recentPayments :: "Payment list"

definition recentPayments :: "ident \<Rightarrow> Db \<Rightarrow> Payment list" where
  "recentPayments userId db =
     take 10 (rev (sort_key (\<lambda>p. getTime (p_createdAt p))
                     (filter (\<lambda>p. p_userId p = userId) (payments db))))"

definition getUserBillingStatus :: "Date \<Rightarrow> ident \<Rightarrow> BillingStatus io" where
  "getUserBillingStatus now userId db =
     (case userFindUnique userId db of
        None \<Rightarrow> (Inl (AppError ''User not found'' 404), db)
      | Some user \<Rightarrow>
          (let (isExpired, daysRemaining, statusMessage) =
                 (if u_isTrialActive user \<and> u_trialEndDate user \<noteq> None then
                    (case u_trialEndDate user of
                       None \<Rightarrow> (False, None, ''No billing cycle set'')
                     | Some e \<Rightarrow>
                         if dateLt e now then (True, None, ''Trial period expired'')
                         else (let d = ceilDays (getTime e - getTime now)
                               in (False, Some d,
                                   ''Trial active - '' @ showInt d @ '' day(s) remaining'')))
                  else if u_isBillingActive user \<and> u_billingCycleEndDate user \<noteq> None then
                    (case u_billingCycleEndDate user of
                       None \<Rightarrow> (False, None, ''No billing cycle set'')
                     | Some e \<Rightarrow>
                         if dateLt e now then (True, None, ''Billing cycle expired'')
                         else (let d = ceilDays (getTime e - getTime now)
                               in (False, Some d,
                                   ''Active - '' @ showInt d @ '' day(s) remaining'')))
                  else (False, None, ''No billing cycle set''))
           in (Inr \<lparr> bs_user = user, bs_isExpired = isExpired, bs_daysRemaining = daysRemaining,
                      bs_statusMessage = statusMessage,
                      bs_recentPayments = recentPayments userId db \<rparr>, db)))"







section \<open>The environment of the authentication services\<close>

datatype table = UserTable | SessionActivityTable | LoginHistoryTable | SecurityAlertTable

text \<open>
  What a call of the authentication services reads from outside the database: the clock
  (every \<open>new Date()\<close> of one call reads the same instant), the password hasher and the
  token codec (\<open>utils/password\<close>, \<open>utils/token\<close>; \<open>verifyRefreshToken\<close> gives the
  subject of a valid token and throws otherwise), the HTTP client of the geolocation
  lookup, the fingerprint \<open>getDeviceFingerprint(parseDeviceInfo(userAgent))\<close> of a
  User-Agent header, and the tables whose writes are rejected by the database during the
  call.
\<close>

record Env =
  clock :: Date
  comparePassword :: "string \<Rightarrow> string \<Rightarrow> bool"
  signAccessToken :: "ident \<Rightarrow> UserRole \<Rightarrow> string"
  signRefreshToken :: "ident \<Rightarrow> UserRole \<Rightarrow> string"
  verifyRefreshToken :: "string \<Rightarrow> ident option"
  axiosGet :: http
  deviceFingerprintOf :: "string option \<Rightarrow> string"
  writeFails :: "table \<Rightarrow> bool"

definition readIO :: "(Db \<Rightarrow> 'a) \<Rightarrow> 'a io" where
  "readIO f db = (Inr (f db), db)"

definition awaitIO :: "'a outcome \<Rightarrow> 'a io" where
  "awaitIO r = (case r of Returned a \<Rightarrow> returnIO a | Thrown msg \<Rightarrow> throwIO (PlainError msg))"

definition guardWrite :: "Env \<Rightarrow> table \<Rightarrow> 'a io \<Rightarrow> 'a io" where
  "guardWrite env t m db =
     (if writeFails env t then (Inl (StoreError ''Write rejected''), db) else m db)"

text \<open>\<open>create\<close> on the three audit tables; the foreign key to the user is checked.\<close>

definition loginHistoryCreate :: "Env \<Rightarrow> LoginHistory \<Rightarrow> LoginHistory io" where
  "loginHistoryCreate env dat =
     guardWrite env LoginHistoryTable
       (\<lambda>db. case userFindUnique (lh_userId dat) db of
               None \<Rightarrow> (Inl (StoreError ''Foreign key constraint failed''), db)
             | Some _ \<Rightarrow>
                 (let row = dat\<lparr> lh_id := nextId db \<rparr>
                  in (Inr row, db\<lparr> loginHistories := loginHistories db @ [row],
                                      nextId := Suc (nextId db) \<rparr>)))"

definition sessionActivityCreate :: "Env \<Rightarrow> SessionActivity \<Rightarrow> SessionActivity io" where
  "sessionActivityCreate env dat =
     guardWrite env SessionActivityTable
       (\<lambda>db. case userFindUnique (sa_userId dat) db of
               None \<Rightarrow> (Inl (StoreError ''Foreign key constraint failed''), db)
             | Some _ \<Rightarrow>
                 (let row = dat\<lparr> sa_id := nextId db \<rparr>
                  in (Inr row, db\<lparr> sessionActivities := sessionActivities db @ [row],
                                      nextId := Suc (nextId db) \<rparr>)))"

definition securityAlertCreate :: "Env \<Rightarrow> SecurityAlert \<Rightarrow> SecurityAlert io" where
  "securityAlertCreate env dat =
     guardWrite env SecurityAlertTable
       (\<lambda>db. if (case al_userId dat of None \<Rightarrow> False | Some i \<Rightarrow> userFindUnique i db = None)
             then (Inl (StoreError ''Foreign key constraint failed''), db)
             else
               (let row = dat\<lparr> al_id := nextId db \<rparr>
                in (Inr row, db\<lparr> securityAlerts := securityAlerts db @ [row],
                                    nextId := Suc (nextId db) \<rparr>)))"

text \<open>\<open>updateMany\<close>: every row matching \<open>whr\<close> is rewritten; the count is returned.\<close>

definition sessionActivityUpdateMany ::
  "Env \<Rightarrow> (SessionActivity \<Rightarrow> bool) \<Rightarrow> (SessionActivity \<Rightarrow> SessionActivity) \<Rightarrow> nat io" where
  "sessionActivityUpdateMany env whr dat =
     guardWrite env SessionActivityTable
       (\<lambda>db. (Inr (length (filter whr (sessionActivities db))),
              db\<lparr> sessionActivities := map (\<lambda>r. if whr r then dat r else r) (sessionActivities db) \<rparr>))"

definition userUpdateMany :: "Env \<Rightarrow> (User \<Rightarrow> bool) \<Rightarrow> (User \<Rightarrow> User) \<Rightarrow> nat io" where
  "userUpdateMany env whr dat =
     guardWrite env UserTable
       (\<lambda>db. (Inr (length (filter whr (users db))),
              db\<lparr> users := map (\<lambda>r. if whr r then (dat r)\<lparr> u_updatedAt := clock env \<rparr> else r)
                                (users db) \<rparr>))"

section \<open>Login history and session activity services\<close>

text \<open>
  The location lookup shared by \<open>createLoginHistory\<close> and \<open>createSession\<close>:
  \<open>if (params.ipAddress) locationData = await getLocationFromIP(params.ipAddress)\<close>.
\<close>

definition locationOf :: "Env \<Rightarrow> string option \<Rightarrow> (LocationData option) io" where
  "locationOf env ipAddress =
     (if truthy ipAddress then awaitIO (fst (getLocationFromIP (axiosGet env) ipAddress))
      else returnIO None)"

text \<open>\<open>locationData?.field\<close>.\<close>

definition optField :: "'a option \<Rightarrow> ('a \<Rightarrow> 'b option) \<Rightarrow> 'b option" where
  "optField r f = (case r of None \<Rightarrow> None | Some v \<Rightarrow> f v)"

text \<open>loginHistory.service.ts, \<open>createLoginHistory\<close>.\<close>

definition createLoginHistory ::
  "Env \<Rightarrow> ident \<Rightarrow> string \<Rightarrow> string option \<Rightarrow> string option \<Rightarrow> string option \<Rightarrow> bool \<Rightarrow>
   string option \<Rightarrow> LoginHistory io" where
  "createLoginHistory env userId email ipAddress userAgent macAddress success failureReason =
     bindIO (locationOf env ipAddress)
       (\<lambda>locationData.
     loginHistoryCreate env
       \<lparr> lh_id = 0, lh_userId = userId, lh_email = email, lh_ipAddress = ipAddress,
         lh_location = optField locationData location, lh_city = optField locationData city,
         lh_country = optField locationData country,
         lh_latitude = optField locationData latitude,
         lh_longitude = optField locationData longitude,
         lh_macAddress = macAddress, lh_deviceInfo = Some (deviceFingerprintOf env userAgent),
         lh_userAgent = userAgent, lh_success = success, lh_failureReason = failureReason,
         lh_loginAt = clock env \<rparr>)"

text \<open>The session activity service (src/unnamed/part_004).\<close>

definition createSession ::
  "Env \<Rightarrow> ident \<Rightarrow> string \<Rightarrow> string option \<Rightarrow> string option \<Rightarrow> string option \<Rightarrow> SessionActivity io" where
  "createSession env userId sessionToken ipAddress userAgent macAddress =
     bindIO (locationOf env ipAddress)
       (\<lambda>locationData.
     sessionActivityCreate env
       \<lparr> sa_id = 0, sa_userId = userId, sa_sessionToken = sessionToken,
         sa_ipAddress = ipAddress,
         sa_location = optField locationData location, sa_city = optField locationData city,
         sa_country = optField locationData country,
         sa_latitude = optField locationData latitude,
         sa_longitude = optField locationData longitude,
         sa_macAddress = macAddress, sa_deviceInfo = Some (deviceFingerprintOf env userAgent),
         sa_userAgent = userAgent, sa_loginAt = clock env, sa_logoutAt = None,
         sa_lastActivityAt = clock env, sa_isActive = True, sa_logoutReason = None \<rparr>)"

definition invalidateSession :: "Env \<Rightarrow> string \<Rightarrow> string \<Rightarrow> bool io" where
  "invalidateSession env sessionToken logoutReason =
     bindIO (sessionActivityUpdateMany env
               (\<lambda>r. sa_sessionToken r = sessionToken \<and> sa_isActive r)
               (\<lambda>r. r\<lparr> sa_isActive := False, sa_logoutAt := Some (clock env),
                        sa_logoutReason := Some logoutReason \<rparr>))
       (\<lambda>count. returnIO (count > 0))"

text \<open>\<open>getUserActiveSessions\<close>: the active rows of the user, latest login first.\<close>

definition getUserActiveSessions :: "ident \<Rightarrow> Db \<Rightarrow> SessionActivity list" where
  "getUserActiveSessions userId db =
     rev (sort_key (\<lambda>r. getTime (sa_loginAt r))
            (filter (\<lambda>r. sa_userId r = userId \<and> sa_isActive r) (sessionActivities db)))"

record ForceLogoutResult =
  fl_success :: bool
  fl_userId :: ident
  fl_userEmail :: string

text \<open>
  \<open>forceLogout\<close>. The row is read with its user (\<open>include: {user}\<close>) before anything
  is written; \<open>session.isActive\<close> is the flag of that copy.
\<close>

definition forceLogout :: "Env \<Rightarrow> ident \<Rightarrow> ident \<Rightarrow> ForceLogoutResult io" where
  "forceLogout env sessionId adminId =
     bindIO (readIO (\<lambda>db. case find (\<lambda>r. sa_id r = sessionId) (sessionActivities db) of
                            None \<Rightarrow> None
                          | Some session \<Rightarrow> Some (session, userFindUnique (sa_userId session) db)))
       (\<lambda>found.
     case found of
       None \<Rightarrow> throwIO (PlainError ''Session not found'')
     | Some (session, owner) \<Rightarrow>
         bindIO (invalidateSession env (sa_sessionToken session) ''forced_by_admin'')
           (\<lambda>_.
         bindIO (if sa_isActive session then
                   userUpdateMany env
                     (\<lambda>u. u_id u = sa_userId session \<and>
                          u_currentSessionToken u = Some (sa_sessionToken session))
                     (\<lambda>u. u\<lparr> u_currentSessionToken := None \<rparr>)
                 else returnIO 0)
           (\<lambda>_.
         case owner of
           None \<Rightarrow> throwIO (PlainError ''Cannot read properties of null'')
         | Some usr \<Rightarrow>
             returnIO \<lparr> fl_success = True, fl_userId = sa_userId session,
                        fl_userEmail = u_email usr \<rparr>)))"

section \<open>Security alert service (src/Server/diagnose-squid-https.sh, second part)\<close>

definition createSecurityAlert ::
  "Env \<Rightarrow> ident option \<Rightarrow> SecurityAlertType \<Rightarrow> SecurityAlertSeverity \<Rightarrow> string \<Rightarrow>
   (string \<times> json) list \<Rightarrow> SecurityAlert io" where
  "createSecurityAlert env userId alertType severity message metadata =
     securityAlertCreate env
       \<lparr> al_id = 0, al_userId = userId, al_alertType = alertType, al_severity = severity,
         al_message = message, al_metadata = metadata, al_isRead = False,
         al_isDismissed = False, al_createdAt = clock env \<rparr>"

definition jsonOfString :: "string option \<Rightarrow> json" where
  "jsonOfString s = (case s of None \<Rightarrow> JNull | Some v \<Rightarrow> JString v)"

definition createMultipleDeviceLoginAlert ::
  "Env \<Rightarrow> ident \<Rightarrow> string \<Rightarrow> string option \<Rightarrow> string option \<Rightarrow> string option \<Rightarrow> string \<Rightarrow>
   string \<Rightarrow> string option \<Rightarrow> SecurityAlert io" where
  "createMultipleDeviceLoginAlert env userId userEmail previousDevice previousIP previousLocation
     newDevice newIP newLocation =
     (let previousInfo =
            (if truthy previousDevice \<and> truthy previousIP
             then ''Previous session on '' @ orElse previousDevice [] @ '' ('' @
                  orElse previousIP [] @ '') was terminated.''
             else ''No previous session found.'');
          message = userEmail @ '' logged in from a new device. '' @ previousInfo
      in createSecurityAlert env (Some userId) MULTIPLE_DEVICE_LOGIN MEDIUM message
           [(''email'', JString userEmail),
            (''previousDevice'', jsonOfString previousDevice),
            (''previousIP'', jsonOfString previousIP),
            (''previousLocation'', jsonOfString previousLocation),
            (''newDevice'', JString newDevice),
            (''newIP'', JString newIP),
            (''newLocation'', jsonOfString newLocation),
            (''timestamp'', JDate (clock env))])"

definition createFailedLoginAlert ::
  "Env \<Rightarrow> string \<Rightarrow> string \<Rightarrow> string option \<Rightarrow> nat \<Rightarrow> string \<Rightarrow> SecurityAlert io" where
  "createFailedLoginAlert env email ipAddress loc attemptCount reason =
     (let severity = (if attemptCount \<ge> 5 then HIGH else MEDIUM);
          message = showNat attemptCount @ '' failed login attempt(s) for '' @ email @
                    '' from '' @ ipAddress @ '' ('' @ orElse loc ''Unknown location'' @ '')''
      in createSecurityAlert env None FAILED_LOGIN_ATTEMPT severity message
           [(''email'', JString email),
            (''ipAddress'', JString ipAddress),
            (''location'', jsonOfString loc),
            (''attemptCount'', JCount attemptCount),
            (''reason'', JString reason),
            (''timestamp'', JDate (clock env))])"

section \<open>Authentication service (src/Server/src/services/auth.service.ts)\<close>

record AuthTokens =
  accessToken :: string
  refreshToken :: string

record LoginMetadata =
  ipAddress :: "string option"
  userAgent :: "string option"
  macAddress :: "string option"
  deviceMetadata :: "string option"

definition issueTokens :: "Env \<Rightarrow> ident \<Rightarrow> UserRole \<Rightarrow> AuthTokens" where
  "issueTokens env userId role =
     \<lparr> accessToken = signAccessToken env userId role,
       refreshToken = signRefreshToken env userId role \<rparr>"

text \<open>The loop \<open>for (const session of existingSessions) await invalidateSession(...)\<close>.\<close>

fun invalidateSessions :: "Env \<Rightarrow> SessionActivity list \<Rightarrow> unit io" where
  "invalidateSessions env [] = returnIO ()"
| "invalidateSessions env (session # rest) =
     bindIO (invalidateSession env (sa_sessionToken session) ''new_login'')
       (\<lambda>_. invalidateSessions env rest)"

text \<open>
  The first branch of \<open>login\<close>: the user is missing or not active. History and alert are
  written only when both the metadata and the user exist.
\<close>

definition loginRejectInactive :: "Env \<Rightarrow> string \<Rightarrow> LoginMetadata option \<Rightarrow> User option \<Rightarrow> (User \<times> AuthTokens) io" where
  "loginRejectInactive env email metadata user =
     bindIO (case (metadata, user) of
               (Some md, Some u) \<Rightarrow>
                 bindIO (createLoginHistory env (u_id u) email (ipAddress md) (userAgent md)
                           (macAddress md) False
                           (Some ''Invalid credentials or inactive account''))
                   (\<lambda>_.
                 bindIO (awaitIO (fst (getLocationFromIP (axiosGet env) (ipAddress md))))
                   (\<lambda>loc.
                 bindIO (createFailedLoginAlert env email (orElse (ipAddress md) ''Unknown'')
                           (orUndefined (optField loc location)) 1
                           ''Invalid credentials or inactive account'')
                   (\<lambda>_. returnIO ())))
             | _ \<Rightarrow> returnIO ())
       (\<lambda>_. throwIO (AppError ''Invalid email or password'' 401))"

text \<open>The second branch: the password does not verify.\<close>

definition loginRejectPassword :: "Env \<Rightarrow> string \<Rightarrow> LoginMetadata option \<Rightarrow> User \<Rightarrow> (User \<times> AuthTokens) io" where
  "loginRejectPassword env email metadata user =
     bindIO (case metadata of
               Some md \<Rightarrow>
                 bindIO (createLoginHistory env (u_id user) email (ipAddress md) (userAgent md)
                           (macAddress md) False (Some ''Incorrect password''))
                   (\<lambda>_. returnIO ())
             | None \<Rightarrow> returnIO ())
       (\<lambda>_. throwIO (AppError ''Invalid email or password'' 401))"

text \<open>
  Single session enforcement: when the user has active sessions, all of them are
  invalidated, the current session token is cleared and, with metadata, the alert is
  written.
\<close>

definition enforceSingleSession :: "Env \<Rightarrow> LoginMetadata option \<Rightarrow> User \<Rightarrow> SessionActivity list \<Rightarrow> unit io" where
  "enforceSingleSession env metadata user existingSessions =
     (case existingSessions of
        [] \<Rightarrow> returnIO ()
      | oldSession # _ \<Rightarrow>
          (let previousDevice = orElse (sa_deviceInfo oldSession) ''Unknown Device'';
               previousIP = orElse (sa_ipAddress oldSession) ''Unknown IP'';
               previousLocation = sa_location oldSession
           in bindIO (invalidateSessions env existingSessions)
                (\<lambda>_.
              bindIO (guardWrite env UserTable
                        (userUpdate (clock env) (u_id user)
                           (\<lambda>u. u\<lparr> u_currentSessionToken := None \<rparr>)))
                (\<lambda>_.
              case metadata of
                None \<Rightarrow> returnIO ()
              | Some md \<Rightarrow>
                  bindIO (awaitIO (fst (getLocationFromIP (axiosGet env) (ipAddress md))))
                    (\<lambda>newLocation.
                  bindIO (createMultipleDeviceLoginAlert env (u_id user) (u_email user)
                            (Some previousDevice) (Some previousIP) previousLocation
                            (deviceFingerprintOf env (userAgent md))
                            (orElse (ipAddress md) ''Unknown'')
                            (orUndefined (optField newLocation location)))
                    (\<lambda>_. returnIO ()))))))"

text \<open>
  \<open>login\<close>. In the update of the user, \<open>lastLoginIP: metadata?.ipAddress\<close> leaves the
  column as it is when the address is undefined. The user returned is the row read at the
  start.
\<close>

definition login :: "Env \<Rightarrow> string \<Rightarrow> string \<Rightarrow> LoginMetadata option \<Rightarrow> (User \<times> AuthTokens) io" where
  "login env email password metadata =
     bindIO (readIO (userFindByEmail email))
       (\<lambda>found.
     case found of
       None \<Rightarrow> loginRejectInactive env email metadata None
     | Some user \<Rightarrow>
         if u_status user \<noteq> ACTIVE then loginRejectInactive env email metadata (Some user)
         else if \<not> comparePassword env password (u_passwordHash user)
         then loginRejectPassword env email metadata user
         else
           bindIO (readIO (getUserActiveSessions (u_id user)))
             (\<lambda>existingSessions.
           bindIO (enforceSingleSession env metadata user existingSessions)
             (\<lambda>_.
           let tokens = issueTokens env (u_id user) (u_role user) in
           bindIO (guardWrite env UserTable
                     (userUpdate (clock env) (u_id user)
                        (\<lambda>u. u\<lparr> u_lastLoginAt := Some (clock env),
                                 u_lastLoginIP :=
                                   (case optField metadata ipAddress of
                                      None \<Rightarrow> u_lastLoginIP u
                                    | Some ip \<Rightarrow> Some ip),
                                 u_currentSessionToken := Some (accessToken tokens) \<rparr>)))
             (\<lambda>_.
           bindIO (case metadata of
                     None \<Rightarrow> returnIO ()
                   | Some md \<Rightarrow>
                       bindIO (createLoginHistory env (u_id user) (u_email user) (ipAddress md)
                                 (userAgent md) (macAddress md) True None)
                         (\<lambda>_.
                       bindIO (createSession env (u_id user) (accessToken tokens) (ipAddress md)
                                 (userAgent md) (macAddress md))
                         (\<lambda>_. returnIO ())))
             (\<lambda>_. returnIO (user, tokens))))))"

text \<open>
  \<open>refreshTokens\<close>: the body of the \<open>try\<close> block, and the \<open>catch\<close> clause that
  rethrows every exception as ``Invalid refresh token''.
\<close>

definition refreshTokensBody :: "Env \<Rightarrow> string \<Rightarrow> AuthTokens io" where
  "refreshTokensBody env token =
     (case verifyRefreshToken env token of
        None \<Rightarrow> throwIO (PlainError ''jwt malformed'')
      | Some sub \<Rightarrow>
          bindIO (readIO (userFindUnique sub))
            (\<lambda>found.
          case found of
            None \<Rightarrow> throwIO (AppError ''User is not active'' 403)
          | Some user \<Rightarrow>
              if u_status user \<noteq> ACTIVE then throwIO (AppError ''User is not active'' 403)
              else
                (let tokens = issueTokens env (u_id user) (u_role user) in
                 bindIO (guardWrite env UserTable
                           (userUpdate (clock env) (u_id user)
                              (\<lambda>u. u\<lparr> u_currentSessionToken := Some (accessToken tokens) \<rparr>)))
                   (\<lambda>_. returnIO tokens))))"

definition refreshTokens :: "Env \<Rightarrow> string \<Rightarrow> AuthTokens io" where
  "refreshTokens env token db =
     (case refreshTokensBody env token db of
        (Inl e, db') \<Rightarrow> (Inl (AppError ''Invalid refresh token'' 401), db')
      | (Inr tokens, db') \<Rightarrow> (Inr tokens, db'))"

section \<open>The calendar arithmetic the specification asks for\<close>

text \<open>
  A date that names a day of the calendar: every \<open>Date\<close> the program builds is one.
\<close>

definition validDate :: "Date \<Rightarrow> bool" where
  "validDate dt = (0 \<le> month dt \<and> month dt < 12 \<and> 1 \<le> day dt \<and>
                   day dt \<le> daysInMonth (year dt) (month dt))"

text \<open>
  The cycle end in the words of the specification (section 4.7.2), for comparison with
  \<open>calculateCycleEndDate\<close>. DAILY and WEEKLY add one day and seven days of
  86400000 milliseconds to the start instant. The other cycles add 1, 3, 6 or 12 calendar
  months, keep the day of the month and clamp it to the last day of the target month;
  \<open>overflowDays\<close> is the number of days by which the start's day of the month exceeds
  the target month.
\<close>

definition msPerDay :: int where
  "msPerDay = 86400000"

definition cycleMonths :: "BillingCycle \<Rightarrow> int" where
  "cycleMonths c = (case c of MONTHLY \<Rightarrow> 1 | THREE_MONTHS \<Rightarrow> 3 | HALF_YEAR \<Rightarrow> 6
                    | YEARLY \<Rightarrow> 12 | _ \<Rightarrow> 0)"

definition addMonthsClamped :: "Date \<Rightarrow> int \<Rightarrow> Date" where
  "addMonthsClamped dt k =
     (let ty = year dt + (month dt + k) div 12; tm = (month dt + k) mod 12
      in dt\<lparr> year := ty, month := tm, day := min (day dt) (daysInMonth ty tm) \<rparr>)"

fun specCycleEndTime :: "Date \<Rightarrow> BillingCycle \<Rightarrow> int" where
  "specCycleEndTime startDate DAILY = getTime startDate + 1 * msPerDay"
| "specCycleEndTime startDate WEEKLY = getTime startDate + 7 * msPerDay"
| "specCycleEndTime startDate c = getTime (addMonthsClamped startDate (cycleMonths c))"

fun overflowDays :: "Date \<Rightarrow> BillingCycle \<Rightarrow> int" where
  "overflowDays startDate DAILY = 0"
| "overflowDays startDate WEEKLY = 0"
| "overflowDays startDate c =
     max 0 (day startDate -
            daysInMonth (year startDate + (month startDate + cycleMonths c) div 12)
                        ((month startDate + cycleMonths c) mod 12))"

section \<open>Observations and rows used in the proofs\<close>



text \<open>An operation that writes neither the user table nor the session table.\<close>

definition frame :: "'a io \<Rightarrow> bool" where
  "frame m = (\<forall>db. users (snd (m db)) = users db \<and>
                   sessionActivities (snd (m db)) = sessionActivities db)"

definition currentTokenOf :: "ident \<Rightarrow> Db \<Rightarrow> string option" where
  "currentTokenOf userId db = optField (userFindUnique userId db) u_currentSessionToken"

definition activeSessionTokens :: "ident \<Rightarrow> Db \<Rightarrow> string list" where
  "activeSessionTokens userId db = map sa_sessionToken (getUserActiveSessions userId db)"

definition expiredFlag :: "(error + BillingStatus) \<times> Db \<Rightarrow> bool option" where
  "expiredFlag r = (case fst r of Inl e \<Rightarrow> None | Inr st \<Rightarrow> Some (bs_isExpired st))"

section \<open>Concrete inputs\<close>

definition newYear :: Date where
  "newYear = \<lparr> year = 2025, month = 0, day = 1, msOfDay = 0 \<rparr>"

definition jan31 :: Date where
  "jan31 = \<lparr> year = 2025, month = 0, day = 31, msOfDay = 0 \<rparr>"

definition noon :: Date where
  "noon = \<lparr> year = 2025, month = 5, day = 15, msOfDay = 43200000 \<rparr>"

definition afternoon :: Date where
  "afternoon = \<lparr> year = 2025, month = 5, day = 15, msOfDay = 44040000 \<rparr>"


definition aug31 :: Date where
  "aug31 = \<lparr> year = 2025, month = 7, day = 31, msOfDay = 0 \<rparr>"

definition distance500 :: "real \<Rightarrow> real \<Rightarrow> real \<Rightarrow> real \<Rightarrow> real" where
  "distance500 lat1 lon1 lat2 lon2 = 500"

definition distance501 :: "real \<Rightarrow> real \<Rightarrow> real \<Rightarrow> real \<Rightarrow> real" where
  "distance501 lat1 lon1 lat2 lon2 = 501"

definition demoCompare :: "string \<Rightarrow> string \<Rightarrow> bool" where
  "demoCompare password hash = (hash = CHR ''#'' # password)"

definition demoSignAccess :: "string \<Rightarrow> ident \<Rightarrow> UserRole \<Rightarrow> string" where
  "demoSignAccess tag userId role = ''access-'' @ tag"

definition demoSignRefresh :: "string \<Rightarrow> ident \<Rightarrow> UserRole \<Rightarrow> string" where
  "demoSignRefresh tag userId role = ''refresh-'' @ tag"

definition demoVerify :: "string \<Rightarrow> ident option" where
  "demoVerify token = (if startsWith token ''refresh-'' then Some 1 else None)"

definition demoGet :: http where
  "demoGet url = HttpFailed ''timeout of 5000ms exceeded''"

definition demoDevice :: "string option \<Rightarrow> string" where
  "demoDevice ua = orElse ua ''Unknown Device''"

definition noFault :: "table \<Rightarrow> bool" where
  "noFault t = False"

definition alertsDown :: "table \<Rightarrow> bool" where
  "alertsDown t = (t = SecurityAlertTable)"

definition demoEnv :: "Date \<Rightarrow> string \<Rightarrow> (table \<Rightarrow> bool) \<Rightarrow> Env" where
  "demoEnv t tag faults =
     \<lparr> clock = t, comparePassword = demoCompare, signAccessToken = demoSignAccess tag,
       signRefreshToken = demoSignRefresh tag, verifyRefreshToken = demoVerify,
       axiosGet = demoGet, deviceFingerprintOf = demoDevice, writeFails = faults \<rparr>"

definition alice :: User where
  "alice = \<lparr> u_id = 1, u_email = ''alice@x.io'', u_passwordHash = ''#correct-horse'',
     u_role = USER, u_status = ACTIVE, u_lastLoginAt = None, u_lastLoginIP = None,
     u_currentSessionToken = None, u_billingCycle = None, u_billingCycleStartDate = None,
     u_billingCycleEndDate = None, u_trialPeriodHours = None, u_trialStartDate = None,
     u_trialEndDate = None, u_isTrialActive = False, u_isBillingActive = True,
     u_lastBillingCheckAt = None, u_createdAt = newYear, u_updatedAt = newYear \<rparr>"

definition bob :: User where
  "bob = \<lparr> u_id = 2, u_email = ''bob@x.io'', u_passwordHash = ''#bobs-password'',
     u_role = USER, u_status = ACTIVE, u_lastLoginAt = None, u_lastLoginIP = None,
     u_currentSessionToken = None, u_billingCycle = None, u_billingCycleStartDate = None,
     u_billingCycleEndDate = None, u_trialPeriodHours = Some 24, u_trialStartDate = Some newYear,
     u_trialEndDate = Some noon, u_isTrialActive = True, u_isBillingActive = False,
     u_lastBillingCheckAt = None, u_createdAt = newYear, u_updatedAt = newYear \<rparr>"

definition carol :: User where
  "carol = \<lparr> u_id = 3, u_email = ''carol@x.io'', u_passwordHash = ''#carols-password'',
     u_role = USER, u_status = ACTIVE, u_lastLoginAt = None, u_lastLoginIP = None,
     u_currentSessionToken = None, u_billingCycle = Some MONTHLY,
     u_billingCycleStartDate = Some jan31, u_billingCycleEndDate = Some aug31,
     u_trialPeriodHours = None, u_trialStartDate = None,
     u_trialEndDate = None, u_isTrialActive = False, u_isBillingActive = True,
     u_lastBillingCheckAt = None, u_createdAt = newYear, u_updatedAt = newYear \<rparr>"




definition demoDb :: "User list \<Rightarrow> Db" where
  "demoDb us = \<lparr> users = us, sessionActivities = [], loginHistories = [], securityAlerts = [],
     payments = [], billingHistories = [], nextId = 100 \<rparr>"

definition office :: LoginMetadata where
  "office = \<lparr> ipAddress = Some ''10.0.0.7'', userAgent = Some ''Chrome on macOS'',
     macAddress = None, deviceMetadata = None \<rparr>"




text \<open>The database after Alice has logged in, and after she has then refreshed her tokens.\<close>

definition afterLogin :: Db where
  "afterLogin = snd (login (demoEnv noon ''A'' noFault) ''alice@x.io'' ''correct-horse''
                       (Some office) (demoDb [alice]))"

definition afterRefresh :: Db where
  "afterRefresh = snd (refreshTokens (demoEnv afternoon ''B'' noFault) ''refresh-A'' afterLogin)"

section \<open>Basic facts\<close>

lemma startsWith_simps:
  "startsWith s [] = True"
  "startsWith [] (c # p) = False"
  "startsWith (a # s) (c # p) = (a = c \<and> startsWith s p)"
  by (auto simp: startsWith_def)


lemma find_map_update:
  assumes "\<And>r. u_id (g r) = u_id r"
  shows "find (\<lambda>u. u_id u = i) (map (\<lambda>r. if u_id r = i then g r else r) xs) =
         map_option g (find (\<lambda>u. u_id u = i) xs)"
  using assms by (induction xs) auto

lemma find_unique_row:
  "distinct (map u_id us) \<Longrightarrow> find (\<lambda>u. u_id u = i) us = Some owner \<Longrightarrow>
   r \<in> set us \<Longrightarrow> u_id r = i \<Longrightarrow> r = owner"
  by (induction us) (auto split: if_splits simp: image_iff)

section \<open>Geolocation\<close>

text \<open>
  The claim under C5 puts the thresholds at 500 km and 2000 km inclusive. At a distance of
  exactly 500 km and 59 minutes the predicate is false.
\<close>

theorem suspicious_at_500_counterexample:
  "distance500 0 0 0 0 \<ge> 500 \<and> (59::real) < 60 \<and>
   \<not> isSuspiciousLocationChange distance500 0 0 0 0 59"
  by (simp add: isSuspiciousLocationChange_def distance500_def)

text \<open>
  Claim C5, amended: for all distances \<open>d\<close> (the value of \<open>calculateDistance\<close>, in km) and
  time differences \<open>t\<close> (minutes), \<open>isSuspiciousLocationChange\<close> returns true if and only
  if \<open>d > 500\<close> and \<open>t < 60\<close>, or \<open>d > 2000\<close> and \<open>t < 180\<close>: both distance thresholds are
  exclusive. So it is false at exactly 500 km for every \<open>t\<close>, false for 500 km and 60
  minutes, and true for 501 km and 59 minutes.
\<close>

theorem isSuspiciousLocationChange_iff:
  "isSuspiciousLocationChange calculateDistance prevLat prevLon newLat newLon t \<longleftrightarrow>
     (calculateDistance prevLat prevLon newLat newLon > 500 \<and> t < 60) \<or>
     (calculateDistance prevLat prevLon newLat newLon > 2000 \<and> t < 180)"
  by (simp add: isSuspiciousLocationChange_def Let_def)

text \<open>The instances named in the claim: 501 km in 59 minutes, 500 km in 60 minutes.\<close>

theorem isSuspiciousLocationChange_iff_witness:
  "isSuspiciousLocationChange distance501 0 0 0 0 59 \<and>
   \<not> isSuspiciousLocationChange distance500 0 0 0 0 60"
  using isSuspiciousLocationChange_iff [of distance501 0 0 0 0 59]
    isSuspiciousLocationChange_iff [of distance500 0 0 0 0 60]
  by (simp add: distance501_def distance500_def)

text \<open>
  The claim under C9 lets every input outside its list reach the lookup. The empty string
  is outside the list (it is a string, not \<open>undefined\<close>), and it gets the synthetic result
  without a request.
\<close>

theorem empty_ip_counterexample:
  "Some [] \<noteq> (None :: string option) \<and> [] \<noteq> ''::1'' \<and> [] \<noteq> ''127.0.0.1'' \<and>
   \<not> startsWith [] ''192.168.'' \<and> \<not> startsWith [] ''10.'' \<and> \<not> startsWith [] ''172.'' \<and>
   getLocationFromIP demoGet (Some []) = (Returned (Some localNetwork), [])"
  by (simp add: getLocationFromIP_def startsWith_def)

text \<open>
  Claim C9, amended: for every IP address that is undefined, the empty string, \<open>::1\<close>,
  \<open>127.0.0.1\<close>, or begins with \<open>192.168.\<close>, \<open>10.\<close> or \<open>172.\<close> (public addresses such as
  172.217.0.1 included), \<open>getLocationFromIP\<close> returns the synthetic result with city
  \<open>Local\<close>, country and location \<open>Local Network\<close>, and requests nothing. For every other
  input it requests the one URL of the address and returns either \<open>null\<close> or the data read
  from a successful answer; it never throws.
\<close>

theorem getLocationFromIP_cases:
  "((addr = None \<or> addr = Some [] \<or> addr = Some ''::1'' \<or> addr = Some ''127.0.0.1'' \<or>
     (\<exists>ip. addr = Some ip \<and>
           (startsWith ip ''192.168.'' \<or> startsWith ip ''10.'' \<or> startsWith ip ''172.''))) \<longrightarrow>
      getLocationFromIP get addr = (Returned (Some localNetwork), [])) \<and>
   (\<not> (addr = None \<or> addr = Some [] \<or> addr = Some ''::1'' \<or> addr = Some ''127.0.0.1'' \<or>
     (\<exists>ip. addr = Some ip \<and>
           (startsWith ip ''192.168.'' \<or> startsWith ip ''10.'' \<or> startsWith ip ''172.''))) \<longrightarrow>
      (\<exists>ip r. addr = Some ip \<and>
         getLocationFromIP get addr = (Returned r, [''http://ip-api.com/json/'' @ ip]) \<and>
         (r = None \<or>
          (\<exists>d. get (''http://ip-api.com/json/'' @ ip) = HttpBody d \<and> apiStatus d = ''success'' \<and>
               r = Some \<lparr> city = orUndefined (apiCity d),
                           region = orUndefined (apiRegionName d),
                           country = orUndefined (apiCountry d),
                           latitude = numOrUndefined (apiLat d),
                           longitude = numOrUndefined (apiLon d),
                           location = Some (orElse (apiCity d) ''Unknown'' @ '', '' @
                                            orElse (apiCountry d) ''Unknown'') \<rparr>)))) \<and>
   city localNetwork = Some ''Local'' \<and> country localNetwork = Some ''Local Network'' \<and>
   location localNetwork = Some ''Local Network''"
  by (cases addr)
     (auto simp: getLocationFromIP_def lookupLocation_def localNetwork_def
           split: http_outcome.splits)

text \<open>
  A public address in 172.0.0.0/8 gets the synthetic result without a request; 8.8.8.8 is
  looked up, and the failed request gives \<open>null\<close>.
\<close>

theorem getLocationFromIP_cases_witness:
  "startsWith ''172.217.0.1'' ''172.'' \<and>
   getLocationFromIP demoGet (Some ''172.217.0.1'') = (Returned (Some localNetwork), []) \<and>
   getLocationFromIP demoGet (Some ''8.8.8.8'') =
     (Returned None, [''http://ip-api.com/json/8.8.8.8''])"
  using getLocationFromIP_cases [of "Some ''172.217.0.1''" demoGet]
    getLocationFromIP_cases [of "Some ''8.8.8.8''" demoGet]
  by (simp add: startsWith_def demoGet_def)

section \<open>Cycle arithmetic\<close>

lemma daysInMonth_bounds: "28 \<le> daysInMonth y m" "daysInMonth y m \<le> 31"
  by (auto simp: daysInMonth_def)

lemma normalizeDay_once:
  assumes "0 \<le> m" "m < 12" "1 \<le> d" "d \<le> daysInMonth y m + 28"
  shows "normalizeDay y m d =
     (if d \<le> daysInMonth y m then (y, m, d)
      else (if m = 11 then y + 1 else y, if m = 11 then 0 else m + 1, d - daysInMonth y m))"
proof (cases "d \<le> daysInMonth y m")
  case True
  then show ?thesis using assms by (subst normalizeDay.simps) simp
next
  case False
  have "normalizeDay y m d =
        normalizeDay (if m = 11 then y + 1 else y) (if m = 11 then 0 else m + 1) (d - daysInMonth y m)"
    using False assms by (subst normalizeDay.simps) simp
  also have "\<dots> = (if m = 11 then y + 1 else y, if m = 11 then 0 else m + 1, d - daysInMonth y m)"
    using False assms daysInMonth_bounds[of "if m = 11 then y + 1 else y" "if m = 11 then 0 else m + 1"]
    by (subst normalizeDay.simps) simp
  finally show ?thesis using False by simp
qed

lemma short_month_next:
  assumes "0 \<le> m" "m < 12" "d \<le> 31" "\<not> d \<le> daysInMonth y m"
  shows "m \<noteq> 11" "daysBeforeMonth y (m + 1) = daysBeforeMonth y m + daysInMonth y m"
  using assms by (auto simp: daysInMonth_def daysBeforeMonth_def Let_def split: if_splits)

lemma setMonth_fields:
  assumes "validDate dt" "0 \<le> k"
  shows "setMonth dt (getMonth dt + k) =
     (let ty = year dt + (month dt + k) div 12; tm = (month dt + k) mod 12 in
      if day dt \<le> daysInMonth ty tm then dt\<lparr> year := ty, month := tm \<rparr>
      else dt\<lparr> year := ty, month := tm + 1, day := day dt - daysInMonth ty tm \<rparr>)"
proof -
  define ty where "ty = year dt + (month dt + k) div 12"
  define tm where "tm = (month dt + k) mod 12"
  have tm: "0 \<le> tm" "tm < 12" by (simp_all add: tm_def)
  have d: "1 \<le> day dt" "day dt \<le> 31"
    using assms(1) daysInMonth_bounds[of "year dt" "month dt"] by (auto simp: validDate_def)
  have "day dt \<le> daysInMonth ty tm + 28"
    using d daysInMonth_bounds[of ty tm] by linarith
  from normalizeDay_once[OF tm d(1) this] short_month_next(1)[OF tm d(2)]
  have "normalizeDay ty tm (day dt) =
     (if day dt \<le> daysInMonth ty tm then (ty, tm, day dt)
      else (ty, tm + 1, day dt - daysInMonth ty tm))"
    by auto
  then show ?thesis
    by (simp add: setMonth_def getMonth_def makeDay_def withDay_def ty_def tm_def Let_def)
qed

lemma setFullYear_fields:
  assumes "validDate dt"
  shows "setFullYear dt (getFullYear dt + 1) =
     (if day dt \<le> daysInMonth (year dt + 1) (month dt) then dt\<lparr> year := year dt + 1 \<rparr>
      else dt\<lparr> year := year dt + 1, month := month dt + 1,
               day := day dt - daysInMonth (year dt + 1) (month dt) \<rparr>)"
proof -
  have m: "0 \<le> month dt" "month dt < 12" and d: "1 \<le> day dt" "day dt \<le> 31"
    using assms daysInMonth_bounds[of "year dt" "month dt"] by (auto simp: validDate_def)
  have "day dt \<le> daysInMonth (year dt + 1) (month dt) + 28"
    using d daysInMonth_bounds[of "year dt + 1" "month dt"] by linarith
  from normalizeDay_once[OF m d(1) this] short_month_next(1)[OF m d(2)]
  have "normalizeDay (year dt + 1) (month dt) (day dt) =
     (if day dt \<le> daysInMonth (year dt + 1) (month dt) then (year dt + 1, month dt, day dt)
      else (year dt + 1, month dt + 1, day dt - daysInMonth (year dt + 1) (month dt)))"
    by auto
  then show ?thesis using m
    by (simp add: setFullYear_def getFullYear_def makeDay_def withDay_def)
qed

lemma div_succ:
  fixes a n :: int
  assumes "0 < n"
  shows "(a + 1) div n = a div n + (if (a + 1) mod n = 0 then 1 else 0)"
proof (cases "a mod n = n - 1")
  case True
  have "a = n * (a div n) + (n - 1)"
    using mult_div_mod_eq[of n a] True by simp
  then have e: "a + 1 = n * (a div n + 1)"
    by (simp add: algebra_simps)
  have "(a + 1) div n = a div n + 1"
    unfolding e using assms by simp
  moreover have "(a + 1) mod n = 0"
    unfolding e by simp
  ultimately show ?thesis by simp
next
  case False
  have r: "0 \<le> a mod n" "a mod n < n" using assms by simp_all
  have "a + 1 = n * (a div n) + (a mod n + 1)"
    using mult_div_mod_eq[of n a] by simp
  moreover have "0 \<le> a mod n + 1" "a mod n + 1 < n" using r False by auto
  ultimately have "(a + 1) div n = a div n" "(a + 1) mod n = a mod n + 1"
    using int_div_pos_eq[of "a + 1" n "a div n" "a mod n + 1"]
          int_mod_pos_eq[of "a + 1" n "a div n" "a mod n + 1"] by auto
  then show ?thesis using r by simp
qed

lemma leap_residues:
  fixes y :: int
  shows "(y - 1968) mod 4 = y mod 4" "(y - 1900) mod 100 = y mod 100"
    "(y - 1600) mod 400 = y mod 400"
  using mod_mult_self1[of "y - 1968" 492 4] mod_mult_self1[of "y - 1900" 19 100]
    mod_mult_self1[of "y - 1600" 4 400]
  by simp_all

lemma leap_divisors:
  fixes y :: int
  shows "y mod 400 = 0 \<Longrightarrow> y mod 100 = 0" "y mod 100 = 0 \<Longrightarrow> y mod 4 = 0"
  using mod_mod_cancel[of 100 400 y] mod_mod_cancel[of 4 100 y] by simp_all

lemma dayFromYear_next:
  "dayFromYear (y + 1) = dayFromYear y + 365 + (if isLeapYear y then 1 else 0)"
proof -
  have a: "(y - 1968) div 4 = (y - 1969) div 4 + (if y mod 4 = 0 then 1 else 0)"
    using div_succ[of 4 "y - 1969"] leap_residues(1)[of y] by simp
  have b: "(y - 1900) div 100 = (y - 1901) div 100 + (if y mod 100 = 0 then 1 else 0)"
    using div_succ[of 100 "y - 1901"] leap_residues(2)[of y] by simp
  have c: "(y - 1600) div 400 = (y - 1601) div 400 + (if y mod 400 = 0 then 1 else 0)"
    using div_succ[of 400 "y - 1601"] leap_residues(3)[of y] by simp
  have e: "y + 1 - 1969 = y - 1968" "y + 1 - 1901 = y - 1900" "y + 1 - 1601 = y - 1600"
          "y + 1 - 1970 = y - 1969"
    by simp_all
  have "dayFromYear (y + 1) =
          365 * (y - 1969) + (y - 1968) div 4 - (y - 1900) div 100 + (y - 1600) div 400"
    unfolding dayFromYear_def e ..
  also have "\<dots> = dayFromYear y + 365 + (if isLeapYear y then 1 else 0)"
    unfolding a b c dayFromYear_def isLeapYear_def
    using leap_divisors[of y] by (simp split: if_splits)
  finally show ?thesis .
qed

lemma daysBeforeMonth_next:
  assumes "0 \<le> m" "m < 11"
  shows "daysBeforeMonth y (m + 1) = daysBeforeMonth y m + daysInMonth y m"
proof -
  from assms have "m = 0 \<or> m = 1 \<or> m = 2 \<or> m = 3 \<or> m = 4 \<or> m = 5 \<or> m = 6 \<or> m = 7 \<or>
                   m = 8 \<or> m = 9 \<or> m = 10" by arith
  then show ?thesis
    by (auto simp: daysBeforeMonth_def daysInMonth_def)
qed

lemma daysBeforeMonth_december:
  "daysBeforeMonth y 11 + daysInMonth y 11 = 365 + (if isLeapYear y then 1 else 0)"
  by (auto simp: daysBeforeMonth_def daysInMonth_def)

lemma daysBeforeMonth_january: "daysBeforeMonth y 0 = 0"
  by (simp add: daysBeforeMonth_def)

text \<open>The day number of calendar fields, and its invariance under one carry.\<close>

lemma getTime_carry:
  assumes "0 \<le> m" "m < 12"
  shows "getTime (dt\<lparr> year := (if m = 11 then y + 1 else y), month := (if m = 11 then 0 else m + 1),
                     day := d - daysInMonth y m \<rparr>) =
         getTime (dt\<lparr> year := y, month := m, day := d \<rparr>)"
proof (cases "m = 11")
  case True
  then show ?thesis
    using dayFromYear_next[of y] daysBeforeMonth_december[of y]
    by (simp add: getTime_def daysBeforeMonth_january)
next
  case False
  then have "m < 11" using assms by simp
  from daysBeforeMonth_next[OF assms(1) this, of y] False show ?thesis
    by (simp add: getTime_def algebra_simps)
qed

lemma getTime_day: "getTime (dt\<lparr> day := d \<rparr>) = getTime dt + (d - day dt) * msPerDay"
  by (simp add: getTime_def msPerDay_def algebra_simps)

lemma setDate_adds_days:
  assumes "validDate dt" "0 \<le> n" "n \<le> 28"
  shows "getTime (setDate dt (getDate dt + n)) = getTime dt + n * msPerDay"
proof -
  have m: "0 \<le> month dt" "month dt < 12" and d: "1 \<le> day dt" "day dt \<le> daysInMonth (year dt) (month dt)"
    using assms(1) by (auto simp: validDate_def)
  have mm: "month dt div 12 = 0" "month dt mod 12 = month dt" using m by auto
  have r: "1 \<le> day dt + n" "day dt + n \<le> daysInMonth (year dt) (month dt) + 28"
    using d assms(2,3) by auto
  show ?thesis
  proof (cases "day dt + n \<le> daysInMonth (year dt) (month dt)")
    case True
    then have "setDate dt (getDate dt + n) = dt\<lparr> day := day dt + n \<rparr>"
      using normalizeDay_once[OF m r]
      by (simp add: setDate_def getDate_def makeDay_def withDay_def mm)
    then show ?thesis by (simp add: getTime_day)
  next
    case False
    then have "setDate dt (getDate dt + n) =
       dt\<lparr> year := (if month dt = 11 then year dt + 1 else year dt),
            month := (if month dt = 11 then 0 else month dt + 1),
            day := day dt + n - daysInMonth (year dt) (month dt) \<rparr>"
      using normalizeDay_once[OF m r]
      by (simp add: setDate_def getDate_def makeDay_def withDay_def mm)
    then have "getTime (setDate dt (getDate dt + n)) =
       getTime (dt\<lparr> year := year dt, month := month dt, day := day dt + n \<rparr>)"
      using getTime_carry[OF m, where dt = dt and y = "year dt" and d = "day dt + n"]
      by simp
    also have "\<dots> = getTime (dt\<lparr> day := day dt + n \<rparr>)"
      by simp
    also have "\<dots> = getTime dt + n * msPerDay"
      by (simp add: getTime_day)
    finally show ?thesis .
  qed
qed

lemma setMonth_time:
  assumes "validDate dt" "0 \<le> k"
  shows "getTime (setMonth dt (getMonth dt + k)) =
         getTime (addMonthsClamped dt k) +
         max 0 (day dt - daysInMonth (year dt + (month dt + k) div 12) ((month dt + k) mod 12))
           * msPerDay"
proof -
  define ty where "ty = year dt + (month dt + k) div 12"
  define tm where "tm = (month dt + k) mod 12"
  have tm: "0 \<le> tm" "tm < 12" by (simp_all add: tm_def)
  have d: "1 \<le> day dt" "day dt \<le> 31"
    using assms(1) daysInMonth_bounds[of "year dt" "month dt"] by (auto simp: validDate_def)
  show ?thesis
  proof (cases "day dt \<le> daysInMonth ty tm")
    case True
    then show ?thesis
      using setMonth_fields[OF assms]
      by (simp add: addMonthsClamped_def Let_def ty_def tm_def min_def getTime_def)
  next
    case False
    from short_month_next(2)[OF tm d(2) False] False show ?thesis
      using setMonth_fields[OF assms]
      by (simp add: addMonthsClamped_def Let_def ty_def tm_def min_def getTime_def
            msPerDay_def algebra_simps)
  qed
qed

lemma setFullYear_time:
  assumes "validDate dt"
  shows "getTime (setFullYear dt (getFullYear dt + 1)) =
         getTime (addMonthsClamped dt 12) +
         max 0 (day dt - daysInMonth (year dt + (month dt + 12) div 12) ((month dt + 12) mod 12))
           * msPerDay"
proof -
  have m: "0 \<le> month dt" "month dt < 12" and d: "1 \<le> day dt" "day dt \<le> 31"
    using assms daysInMonth_bounds[of "year dt" "month dt"] by (auto simp: validDate_def)
  have t: "month dt div 12 = 0" "month dt mod 12 = month dt"
    using m by auto
  show ?thesis
  proof (cases "day dt \<le> daysInMonth (year dt + 1) (month dt)")
    case True
    then show ?thesis
      using setFullYear_fields[OF assms]
      by (simp add: addMonthsClamped_def Let_def t min_def getTime_def)
  next
    case False
    from short_month_next(2)[OF m d(2) False] False show ?thesis
      using setFullYear_fields[OF assms]
      by (simp add: addMonthsClamped_def Let_def t min_def getTime_def msPerDay_def
            algebra_simps)
  qed
qed

lemma cycleEnd_time:
  assumes "validDate startDate"
  shows "getTime (calculateCycleEndDate startDate cycle) =
         specCycleEndTime startDate cycle + overflowDays startDate cycle * msPerDay"
proof (cases cycle)
  case DAILY
  then show ?thesis using setDate_adds_days[OF assms, of 1] by simp
next
  case WEEKLY
  then show ?thesis using setDate_adds_days[OF assms, of 7] by simp
next
  case MONTHLY
  then show ?thesis using setMonth_time[OF assms, of 1] by (simp add: cycleMonths_def)
next
  case THREE_MONTHS
  then show ?thesis using setMonth_time[OF assms, of 3] by (simp add: cycleMonths_def)
next
  case HALF_YEAR
  then show ?thesis using setMonth_time[OF assms, of 6] by (simp add: cycleMonths_def)
next
  case YEARLY
  then show ?thesis using setFullYear_time[OF assms] by (simp add: cycleMonths_def)
qed

lemma overflowDays_nonneg: "0 \<le> overflowDays startDate cycle"
  by (cases cycle) simp_all

lemma overflowDays_fits:
  "day startDate \<le> daysInMonth (year startDate + (month startDate + cycleMonths cycle) div 12)
                      ((month startDate + cycleMonths cycle) mod 12) \<Longrightarrow>
   overflowDays startDate cycle = 0"
  by (cases cycle) simp_all

text \<open>
  The claim under C6 clamps to the last day of the target month. One month after
  31 January 2025 the code gives 3 March 2025 (month 2, day 3), not 28 February.
\<close>

theorem month_end_rollover_counterexample:
  "calculateCycleEndDate jan31 MONTHLY = \<lparr> year = 2025, month = 2, day = 3, msOfDay = 0 \<rparr>"
  by code_simp

text \<open>
  Claim C6, amended: for every start date and every month-based cycle (MONTHLY,
  THREE_MONTHS, HALF_YEAR, adding \<open>k\<close> = 1, 3, 6 months), the computed cycle end keeps the
  start's day of the month when the target month has that day; otherwise it is not
  clamped but rolls over into the month after the target month, to the day that many
  days past the target month's end (31 January plus one month is 3 March, or 2 March in a
  leap year). The time of day is kept.
\<close>

theorem calculateCycleEndDate_months:
  assumes "validDate startDate"
    and "(cycle, k) \<in> {(MONTHLY, 1), (THREE_MONTHS, 3), (HALF_YEAR, 6)}"
  shows "calculateCycleEndDate startDate cycle =
     (let ty = year startDate + (month startDate + k) div 12;
          tm = (month startDate + k) mod 12 in
      if day startDate \<le> daysInMonth ty tm then startDate\<lparr> year := ty, month := tm \<rparr>
      else startDate\<lparr> year := ty, month := tm + 1,
                       day := day startDate - daysInMonth ty tm \<rparr>)"
  using assms(2) setMonth_fields[OF assms(1), of k] by auto

text \<open>
  Six months after 31 August 2025 is 31 February 2026, which the code reads as 3 March 2026;
  three months after 31 January 2025 is 1 May 2025.
\<close>

theorem calculateCycleEndDate_months_witness:
  "validDate aug31 \<and>
   calculateCycleEndDate aug31 HALF_YEAR = \<lparr> year = 2026, month = 2, day = 3, msOfDay = 0 \<rparr> \<and>
   validDate jan31 \<and>
   calculateCycleEndDate jan31 THREE_MONTHS = \<lparr> year = 2025, month = 4, day = 1, msOfDay = 0 \<rparr>"
proof -
  have v: "validDate aug31" "validDate jan31"
    by (simp_all add: validDate_def aug31_def jan31_def daysInMonth_def)
  show ?thesis
    using v calculateCycleEndDate_months [OF v(1), of HALF_YEAR 6]
      calculateCycleEndDate_months [OF v(2), of THREE_MONTHS 3]
    by (simp add: aug31_def jan31_def daysInMonth_def isLeapYear_def)
qed


section \<open>Billing\<close>

text \<open>
  The claim under C1 counts the exact instant of the end date as expired and has the login
  rejected. Bob's trial ends at noon; at noon the status projection reports him not
  expired, and his login at noon succeeds, stores the minted access token and opens a
  session.
\<close>

theorem login_at_trial_end_counterexample:
  "u_status bob = ACTIVE \<and> u_isTrialActive bob \<and> u_trialEndDate bob = Some noon \<and>
   comparePassword (demoEnv noon ''A'' noFault) ''bobs-password'' (u_passwordHash bob) \<and>
   expiredFlag (getUserBillingStatus noon 2 (demoDb [bob])) = Some False \<and>
   fst (login (demoEnv noon ''A'' noFault) ''bob@x.io'' ''bobs-password'' (Some office)
          (demoDb [bob])) =
     Inr (bob, \<lparr> accessToken = ''access-A'', refreshToken = ''refresh-A'' \<rparr>) \<and>
   currentTokenOf 2 (snd (login (demoEnv noon ''A'' noFault) ''bob@x.io'' ''bobs-password''
                            (Some office) (demoDb [bob]))) = Some ''access-A'' \<and>
   activeSessionTokens 2 (snd (login (demoEnv noon ''A'' noFault) ''bob@x.io''
                                 ''bobs-password'' (Some office) (demoDb [bob]))) =
     [''access-A'']"
  by code_simp

text \<open>
  Claim C1, amended: for an existing user, the billing status projection
  (\<open>getUserBillingStatus\<close>) reports expired exactly when the trial is active with a trial
  end date strictly before now, or, the trial branch not applying, billing is active with
  a cycle end date strictly before now. End dates are inclusive: at the exact instant of
  the end date the status is not expired. The projection writes nothing.
\<close>

theorem billing_status_expired_iff:
  assumes "userFindUnique userId db = Some user"
  shows "\<exists>st. getUserBillingStatus now userId db = (Inr st, db) \<and>
     (bs_isExpired st \<longleftrightarrow>
        (u_isTrialActive user \<and> (\<exists>e. u_trialEndDate user = Some e \<and> getTime e < getTime now)) \<or>
        (\<not> (u_isTrialActive user \<and> u_trialEndDate user \<noteq> None) \<and> u_isBillingActive user \<and>
         (\<exists>e. u_billingCycleEndDate user = Some e \<and> getTime e < getTime now)))"
  using assms
  by (auto simp: getUserBillingStatus_def Let_def dateLt_def split: option.splits)

text \<open>Fourteen minutes after the end of his trial Bob is reported expired.\<close>

theorem billing_status_expired_iff_witness:
  "userFindUnique 2 (demoDb [bob]) = Some bob \<and>
   expiredFlag (getUserBillingStatus afternoon 2 (demoDb [bob])) = Some True"
proof -
  have h: "userFindUnique 2 (demoDb [bob]) = Some bob"
    by (simp add: userFindUnique_def demoDb_def bob_def)
  have t: "getTime noon < getTime afternoon"
    by (simp add: getTime_def noon_def afternoon_def)
  from billing_status_expired_iff [OF h, of afternoon] obtain st where
    "getUserBillingStatus afternoon 2 (demoDb [bob]) = (Inr st, demoDb [bob])"
    and "bs_isExpired st \<longleftrightarrow>
        (u_isTrialActive bob \<and> (\<exists>e. u_trialEndDate bob = Some e \<and> getTime e < getTime afternoon)) \<or>
        (\<not> (u_isTrialActive bob \<and> u_trialEndDate bob \<noteq> None) \<and> u_isBillingActive bob \<and>
         (\<exists>e. u_billingCycleEndDate bob = Some e \<and> getTime e < getTime afternoon))"
    by blast
  then show ?thesis using h t by (simp add: expiredFlag_def bob_def)
qed

text \<open>
  The claim under C7 has the cycle end equal to the start plus the cycle duration. Carol
  has paid up to 31 August 2025; her monthly payment starts there and ends on 1 October
  2025, one day after 30 September, which is the start plus one calendar month.
\<close>

theorem addPayment_month_end_counterexample:
  "map p_cycleStartDate
     (payments (snd (addPayment noon 3 MONTHLY 50 None (Some 1) (demoDb [carol])))) = [aug31] \<and>
   map p_cycleEndDate
     (payments (snd (addPayment noon 3 MONTHLY 50 None (Some 1) (demoDb [carol])))) =
     [\<lparr> year = 2025, month = 9, day = 1, msOfDay = 0 \<rparr>] \<and>
   addMonthsClamped aug31 1 = \<lparr> year = 2025, month = 8, day = 30, msOfDay = 0 \<rparr> \<and>
   getTime \<lparr> year = 2025, month = 9, day = 1, msOfDay = 0 \<rparr> =
     specCycleEndTime aug31 MONTHLY + 1 * msPerDay"
  by code_simp

text \<open>
  Claim C7, amended: for every add-payment call on an existing user (the current time and
  the stored end date being calendar dates), the new cycle start is the later of the
  current time and the user's existing \<open>billingCycleEndDate\<close> (the current time when
  there is none); the new cycle end is \<open>calculateCycleEndDate\<close> of that start, which is
  exactly one day after the start for DAILY and seven days for WEEKLY, and for MONTHLY,
  THREE_MONTHS, HALF_YEAR and YEARLY is the start plus 1, 3, 6 or 12 calendar months with
  month clamping, plus the days by which the start's day of the month exceeds the target
  month (none when the target month has that day). So the end is never before the start
  plus the cycle duration, and equals it unless the day of the month overflows. A PAID
  Payment row with these dates is appended, and the user ends with these cycle dates,
  \<open>isBillingActive = true\<close> and \<open>isTrialActive = false\<close>.
\<close>

theorem addPayment_cycle_dates:
  assumes "userFindUnique userId db = Some user"
    and "validDate now"
    and "\<forall>e. u_billingCycleEndDate user = Some e \<longrightarrow> validDate e"
  shows "\<exists>payment updatedUser db'.
     addPayment now userId cycle amount memo adminId db = (Inr (payment, updatedUser), db') \<and>
     (p_cycleStartDate payment = now \<or> u_billingCycleEndDate user = Some (p_cycleStartDate payment)) \<and>
     getTime (p_cycleStartDate payment) =
       (case u_billingCycleEndDate user of None \<Rightarrow> getTime now
        | Some e \<Rightarrow> max (getTime now) (getTime e)) \<and>
     p_cycleEndDate payment = calculateCycleEndDate (p_cycleStartDate payment) cycle \<and>
     getTime (p_cycleEndDate payment) =
       specCycleEndTime (p_cycleStartDate payment) cycle +
       overflowDays (p_cycleStartDate payment) cycle * msPerDay \<and>
     0 \<le> overflowDays (p_cycleStartDate payment) cycle \<and>
     (day (p_cycleStartDate payment)
        \<le> daysInMonth (year (p_cycleStartDate payment) +
                         (month (p_cycleStartDate payment) + cycleMonths cycle) div 12)
                        ((month (p_cycleStartDate payment) + cycleMonths cycle) mod 12) \<longrightarrow>
      overflowDays (p_cycleStartDate payment) cycle = 0) \<and>
     p_userId payment = userId \<and> p_billingCycle payment = cycle \<and> p_amount payment = amount \<and>
     p_status payment = PAID \<and> p_paymentDate payment = now \<and>
     payments db' = payments db @ [payment] \<and>
     userFindUnique userId db' = Some updatedUser \<and>
     u_isBillingActive updatedUser \<and> \<not> u_isTrialActive updatedUser \<and>
     u_billingCycle updatedUser = Some cycle \<and>
     u_billingCycleStartDate updatedUser = Some (p_cycleStartDate payment) \<and>
     u_billingCycleEndDate updatedUser = Some (p_cycleEndDate payment)"
proof -
  define cycleStart where "cycleStart = (case u_billingCycleEndDate user of
                               None \<Rightarrow> now
                             | Some e \<Rightarrow> if dateLt now e then e else now)"
  define cycleEnd where "cycleEnd = calculateCycleEndDate cycleStart cycle"
  define payment where "payment = \<lparr> p_id = nextId db, p_userId = userId, p_amount = amount, p_billingCycle = cycle,
                          p_status = PAID, p_paymentDate = now,
                          p_cycleStartDate = cycleStart, p_cycleEndDate = cycleEnd,
                          p_memo = orUndefined memo, p_createdBy = adminId,
                          p_createdAt = now, p_updatedAt = now \<rparr>"
  define upd where "upd = (\<lambda>u::User. u\<lparr> u_billingCycle := Some cycle,
                                 u_billingCycleStartDate := Some cycleStart,
                                 u_billingCycleEndDate := Some cycleEnd,
                                 u_isBillingActive := True,
                                 u_isTrialActive := False,
                                 u_lastBillingCheckAt := Some now, u_updatedAt := now \<rparr>)"
  define db1 where "db1 = db\<lparr> payments := payments db @ [payment], nextId := Suc (nextId db) \<rparr>"
  define db2 where "db2 = db1\<lparr> users := map (\<lambda>r. if u_id r = userId then upd r else r) (users db1) \<rparr>"
  have f1: "userFindUnique userId db1 = Some user"
    using assms(1) by (simp add: userFindUnique_def db1_def)
  have p: "paymentCreate \<lparr> p_id = 0, p_userId = userId, p_amount = amount, p_billingCycle = cycle,
                          p_status = PAID, p_paymentDate = now,
                          p_cycleStartDate = cycleStart, p_cycleEndDate = cycleEnd,
                          p_memo = orUndefined memo, p_createdBy = adminId,
                          p_createdAt = now, p_updatedAt = now \<rparr> db = (Inr payment, db1)"
    by (simp add: paymentCreate_def payment_def db1_def Let_def)
  have u: "userUpdate now userId (\<lambda>u. u\<lparr> u_billingCycle := Some cycle,
                                 u_billingCycleStartDate := Some cycleStart,
                                 u_billingCycleEndDate := Some cycleEnd,
                                 u_isBillingActive := True,
                                 u_isTrialActive := False,
                                 u_lastBillingCheckAt := Some now \<rparr>) db1 = (Inr (upd user), db2)"
    using f1 by (simp add: userUpdate_def db2_def upd_def)
  obtain row db3 where h: "billingHistoryCreate now userId ''PAYMENT_ADDED''
                        [(''paymentId'', JId (p_id payment)), (''amount'', JNumber amount),
                         (''cycle'', JCycle cycle),
                         (''memo'', case orUndefined memo of None \<Rightarrow> JNull | Some t \<Rightarrow> JString t),
                         (''cycleStartDate'', JDate cycleStart),
                         (''cycleEndDate'', JDate cycleEnd)] db2 = (Inr row, db3)"
    and k: "users db3 = users db2" "payments db3 = payments db2"
    by (simp add: billingHistoryCreate_def Let_def)
  have run: "addPayment now userId cycle amount memo adminId db = (Inr (payment, upd user), db3)"
    using assms(1) p u h
    by (simp add: addPayment_def Let_def bindIO_def returnIO_def cycleStart_def cycleEnd_def)
  have f3: "userFindUnique userId db3 = Some (upd user)"
    using f1 unfolding userFindUnique_def k db2_def
    by (simp add: find_map_update upd_def)
  have st: "cycleStart = now \<or> u_billingCycleEndDate user = Some cycleStart"
    by (auto simp: cycleStart_def split: option.splits)
  have mx: "getTime cycleStart =
       (case u_billingCycleEndDate user of None \<Rightarrow> getTime now
        | Some e \<Rightarrow> max (getTime now) (getTime e))"
    by (auto simp: cycleStart_def dateLt_def split: option.splits)
  have "validDate cycleStart"
    using st assms(2,3) by auto
  then have tm: "getTime cycleEnd =
       specCycleEndTime cycleStart cycle + overflowDays cycleStart cycle * msPerDay"
    unfolding cycleEnd_def by (rule cycleEnd_time)
  have ov: "0 \<le> overflowDays cycleStart cycle"
    by (rule overflowDays_nonneg)
  have fit: "day cycleStart
        \<le> daysInMonth (year cycleStart + (month cycleStart + cycleMonths cycle) div 12)
                        ((month cycleStart + cycleMonths cycle) mod 12) \<longrightarrow>
      overflowDays cycleStart cycle = 0"
    using overflowDays_fits by blast
  have pay: "payments db3 = payments db @ [payment]"
    by (simp add: k db2_def db1_def)
  show ?thesis
    apply (rule exI[of _ payment], rule exI[of _ "upd user"], rule exI[of _ db3])
    using run st mx pay f3 tm ov fit
    by (simp add: payment_def upd_def cycleEnd_def)
qed

text \<open>
  A weekly payment for Carol on 15 June starts at 31 August, the later of the two, and ends
  seven days later, on 7 September.
\<close>

theorem addPayment_cycle_dates_witness:
  "userFindUnique 3 (demoDb [carol]) = Some carol \<and> validDate noon \<and>
   u_billingCycleEndDate carol = Some aug31 \<and> validDate aug31 \<and>
   getTime noon < getTime aug31 \<and>
   map p_cycleStartDate (payments (snd (addPayment noon 3 WEEKLY 50 None (Some 1) (demoDb [carol]))))
     = [aug31] \<and>
   map p_cycleEndDate (payments (snd (addPayment noon 3 WEEKLY 50 None (Some 1) (demoDb [carol]))))
     = [\<lparr> year = 2025, month = 8, day = 7, msOfDay = 0 \<rparr>] \<and>
   getTime \<lparr> year = 2025, month = 8, day = 7, msOfDay = 0 \<rparr> = getTime aug31 + 7 * msPerDay"
proof -
  have h: "userFindUnique 3 (demoDb [carol]) = Some carol"
    by (simp add: userFindUnique_def demoDb_def carol_def)
  have v: "validDate noon" "validDate aug31"
    by (simp_all add: validDate_def noon_def aug31_def daysInMonth_def)
  have e: "u_billingCycleEndDate carol = Some aug31"
    by (simp add: carol_def)
  have ve: "\<forall>d. u_billingCycleEndDate carol = Some d \<longrightarrow> validDate d"
    using e v by simp
  have t: "getTime noon < getTime aug31"
    by (simp add: getTime_def noon_def aug31_def dayFromYear_def daysBeforeMonth_def isLeapYear_def)
  from addPayment_cycle_dates [OF h v(1) ve, of WEEKLY 50 None "Some 1"]
  obtain payment updatedUser db' where
    r: "addPayment noon 3 WEEKLY 50 None (Some 1) (demoDb [carol]) = (Inr (payment, updatedUser), db')"
    and s: "p_cycleStartDate payment = noon \<or> u_billingCycleEndDate carol = Some (p_cycleStartDate payment)"
    and m: "getTime (p_cycleStartDate payment) =
       (case u_billingCycleEndDate carol of None \<Rightarrow> getTime noon
        | Some e \<Rightarrow> max (getTime noon) (getTime e))"
    and c: "p_cycleEndDate payment = calculateCycleEndDate (p_cycleStartDate payment) WEEKLY"
    and g: "getTime (p_cycleEndDate payment) =
       specCycleEndTime (p_cycleStartDate payment) WEEKLY +
       overflowDays (p_cycleStartDate payment) WEEKLY * msPerDay"
    and p: "payments db' = payments (demoDb [carol]) @ [payment]"
    by blast
  have start: "p_cycleStartDate payment = aug31"
    using s m t e by auto
  have en: "calculateCycleEndDate aug31 WEEKLY = \<lparr> year = 2025, month = 8, day = 7, msOfDay = 0 \<rparr>"
    by code_simp
  have "getTime \<lparr> year = 2025, month = 8, day = 7, msOfDay = 0 \<rparr> = getTime aug31 + 7 * msPerDay"
    using g c start en by simp
  then show ?thesis
    using h v e t r p c start en by (simp add: demoDb_def)
qed

section \<open>Expiration sweep\<close>








section \<open>Login, refresh and forced logout\<close>

lemma frame_bindIO: "frame m \<Longrightarrow> (\<And>a. frame (f a)) \<Longrightarrow> frame (bindIO m f)"
  unfolding frame_def bindIO_def
  by (auto split: prod.splits sum.splits) (metis snd_conv)+

lemma frame_returnIO: "frame (returnIO a)"
  by (simp add: frame_def returnIO_def)

lemma frame_throwIO: "frame (throwIO e)"
  by (simp add: frame_def throwIO_def)

lemma frame_awaitIO: "frame (awaitIO r)"
  by (cases r) (simp_all add: awaitIO_def frame_returnIO frame_throwIO)

lemma frame_locationOf: "frame (locationOf env ip)"
  by (simp add: locationOf_def frame_awaitIO frame_returnIO)

lemma frame_loginHistoryCreate: "frame (loginHistoryCreate env dat)"
  by (simp add: frame_def loginHistoryCreate_def guardWrite_def Let_def split: option.splits)

lemma frame_securityAlertCreate: "frame (securityAlertCreate env dat)"
  by (simp add: frame_def securityAlertCreate_def guardWrite_def Let_def split: option.splits)

lemma frame_createLoginHistory: "frame (createLoginHistory env i e ip ua mac ok why)"
  unfolding createLoginHistory_def
  by (intro frame_bindIO frame_locationOf frame_loginHistoryCreate)

lemma frame_createFailedLoginAlert: "frame (createFailedLoginAlert env e ip loc n why)"
  by (simp add: createFailedLoginAlert_def createSecurityAlert_def Let_def frame_securityAlertCreate)

lemma frame_loginRejectInactive: "frame (loginRejectInactive env email metadata user)"
  unfolding loginRejectInactive_def
  by (intro frame_bindIO frame_throwIO)
     (auto split: option.splits intro!: frame_bindIO frame_returnIO frame_createLoginHistory
        frame_awaitIO frame_createFailedLoginAlert)

lemma frame_loginRejectPassword: "frame (loginRejectPassword env email metadata user)"
  unfolding loginRejectPassword_def
  by (intro frame_bindIO frame_throwIO)
     (auto split: option.splits intro!: frame_bindIO frame_returnIO frame_createLoginHistory)

lemma bindIO_throw_fails: "\<exists>err. fst (bindIO m (\<lambda>_. throwIO e) db) = Inl err"
  by (auto simp: bindIO_def throwIO_def split: prod.splits sum.splits)

text \<open>\<open>refreshTokens\<close> never writes the session table, whatever it returns.\<close>

lemma refreshTokens_sessions_unchanged:
  "sessionActivities (snd (refreshTokens env token db)) = sessionActivities db"
  by (auto simp: refreshTokens_def refreshTokensBody_def bindIO_def readIO_def throwIO_def
        returnIO_def guardWrite_def userUpdate_def Let_def
      split: option.splits prod.splits sum.splits if_splits)

text \<open>
  Claim C2, at the failing input. Alice logs in and gets the access token \<open>access-A\<close>;
  her one active session row carries it. Fourteen minutes later she refreshes:
  \<open>refreshTokens\<close> stores the new token \<open>access-B\<close> in \<open>currentSessionToken\<close>, and the
  active row still carries \<open>access-A\<close>. The invariant of the claim is broken: the current
  session token is non-null and differs from the token of the unique active row.
\<close>

theorem refresh_leaves_session_row_stale:
  "fst (login (demoEnv noon ''A'' noFault) ''alice@x.io'' ''correct-horse'' (Some office)
          (demoDb [alice])) =
     Inr (alice, \<lparr> accessToken = ''access-A'', refreshToken = ''refresh-A'' \<rparr>) \<and>
   currentTokenOf 1 afterLogin = Some ''access-A'' \<and>
   activeSessionTokens 1 afterLogin = [''access-A''] \<and>
   fst (refreshTokens (demoEnv afternoon ''B'' noFault) ''refresh-A'' afterLogin) =
     Inr \<lparr> accessToken = ''access-B'', refreshToken = ''refresh-B'' \<rparr> \<and>
   currentTokenOf 1 afterRefresh = Some ''access-B'' \<and>
   activeSessionTokens 1 afterRefresh = [''access-A'']"
  by code_simp

text \<open>
  The claim under C3 extends to any internal failure before the state commit. Alice has
  an active session; her next login has the right password, and the write of the
  multiple-device alert is rejected. The login ends with that error after it has
  invalidated the session and cleared the current session token.
\<close>

theorem login_failure_after_invalidation_counterexample:
  "currentTokenOf 1 afterLogin = Some ''access-A'' \<and>
   activeSessionTokens 1 afterLogin = [''access-A''] \<and>
   fst (login (demoEnv afternoon ''B'' alertsDown) ''alice@x.io'' ''correct-horse''
          (Some office) afterLogin) = Inl (StoreError ''Write rejected'') \<and>
   currentTokenOf 1 (snd (login (demoEnv afternoon ''B'' alertsDown) ''alice@x.io''
                            ''correct-horse'' (Some office) afterLogin)) = None \<and>
   activeSessionTokens 1 (snd (login (demoEnv afternoon ''B'' alertsDown) ''alice@x.io''
                                 ''correct-horse'' (Some office) afterLogin)) = []"
  by code_simp

text \<open>
  Claim C3, amended: every login invocation with an unknown email, an inactive account or
  a wrong password terminates with an error (also when the write of the failure record
  itself fails), and leaves the user table and the session table, hence every
  \<open>currentSessionToken\<close> and the active SessionActivity rows, exactly as they were before
  the call. A failure after the invalidation of the prior sessions has begun is not rolled
  back: the services use no transaction.
\<close>

theorem login_rejected_leaves_sessions:
  assumes "userFindByEmail email db = None \<or>
           (\<exists>u. userFindByEmail email db = Some u \<and>
                (u_status u \<noteq> ACTIVE \<or> \<not> comparePassword env password (u_passwordHash u)))"
  shows "(\<exists>e. fst (login env email password metadata db) = Inl e) \<and>
         users (snd (login env email password metadata db)) = users db \<and>
         sessionActivities (snd (login env email password metadata db)) = sessionActivities db"
proof -
  let ?r = "login env email password metadata db"
  have inactive: "?r = loginRejectInactive env email metadata found db \<Longrightarrow> ?thesis" for found
    using frame_loginRejectInactive[of env email metadata found] bindIO_throw_fails
    by (simp add: frame_def loginRejectInactive_def)
  have wrong: "?r = loginRejectPassword env email metadata u db \<Longrightarrow> ?thesis" for u
    using frame_loginRejectPassword[of env email metadata u] bindIO_throw_fails
    by (simp add: frame_def loginRejectPassword_def)
  show ?thesis
  proof (cases "userFindByEmail email db")
    case None
    then have "?r = loginRejectInactive env email metadata None db"
      by (simp add: login_def bindIO_def readIO_def)
    then show ?thesis by (rule inactive)
  next
    case (Some u)
    show ?thesis
    proof (cases "u_status u \<noteq> ACTIVE")
      case True
      then have "?r = loginRejectInactive env email metadata (Some u) db"
        using Some by (simp add: login_def bindIO_def readIO_def)
      then show ?thesis by (rule inactive)
    next
      case False
      then have "\<not> comparePassword env password (u_passwordHash u)"
        using assms Some by auto
      then have "?r = loginRejectPassword env email metadata u db"
        using Some False by (simp add: login_def bindIO_def readIO_def)
      then show ?thesis by (rule wrong)
    qed
  qed
qed

text \<open>
  Alice, logged in, is attacked with a wrong password: the login is refused with the 401
  error and her session stays as it was.
\<close>

theorem login_rejected_leaves_sessions_witness:
  "userFindByEmail ''alice@x.io'' afterLogin \<noteq> None \<and>
   \<not> comparePassword (demoEnv afternoon ''B'' noFault) ''wrong-guess''
       (u_passwordHash (the (userFindByEmail ''alice@x.io'' afterLogin))) \<and>
   fst (login (demoEnv afternoon ''B'' noFault) ''alice@x.io'' ''wrong-guess'' (Some office)
          afterLogin) = Inl (AppError ''Invalid email or password'' 401) \<and>
   users (snd (login (demoEnv afternoon ''B'' noFault) ''alice@x.io'' ''wrong-guess''
                 (Some office) afterLogin)) = users afterLogin \<and>
   sessionActivities (snd (login (demoEnv afternoon ''B'' noFault) ''alice@x.io''
                             ''wrong-guess'' (Some office) afterLogin)) =
     sessionActivities afterLogin \<and>
   activeSessionTokens 1 afterLogin = [''access-A'']"
proof -
  have h1: "userFindByEmail ''alice@x.io'' afterLogin \<noteq> None"
    by code_simp
  have h2: "\<not> comparePassword (demoEnv afternoon ''B'' noFault) ''wrong-guess''
       (u_passwordHash (the (userFindByEmail ''alice@x.io'' afterLogin)))"
    by code_simp
  have c: "fst (login (demoEnv afternoon ''B'' noFault) ''alice@x.io'' ''wrong-guess''
            (Some office) afterLogin) = Inl (AppError ''Invalid email or password'' 401)"
    "activeSessionTokens 1 afterLogin = [''access-A'']"
    by code_simp+
  have h: "userFindByEmail ''alice@x.io'' afterLogin = None \<or>
           (\<exists>u. userFindByEmail ''alice@x.io'' afterLogin = Some u \<and>
                (u_status u \<noteq> ACTIVE \<or>
                 \<not> comparePassword (demoEnv afternoon ''B'' noFault) ''wrong-guess''
                     (u_passwordHash u)))"
    using h1 h2 by auto
  show ?thesis
    using h1 h2 c login_rejected_leaves_sessions [OF h, of "Some office"] by simp
qed

text \<open>
  Claim C4, at the failing input. Alice exists and is active; the password is wrong and
  the request metadata is present. \<open>login\<close> records the failed LoginHistory row with the
  reason ``Incorrect password'' and throws the 401 error, and writes no SecurityAlert: the
  alert table is as empty as before. Only the branch for a missing or inactive user calls
  \<open>createFailedLoginAlert\<close>, with the attempt count fixed at 1.
\<close>

theorem wrong_password_emits_no_alert:
  "userFindByEmail ''alice@x.io'' (demoDb [alice]) = Some alice \<and> u_status alice = ACTIVE \<and>
   \<not> comparePassword (demoEnv noon ''A'' noFault) ''wrong-guess'' (u_passwordHash alice) \<and>
   fst (login (demoEnv noon ''A'' noFault) ''alice@x.io'' ''wrong-guess'' (Some office)
          (demoDb [alice])) = Inl (AppError ''Invalid email or password'' 401) \<and>
   map lh_success (loginHistories (snd (login (demoEnv noon ''A'' noFault) ''alice@x.io''
                                          ''wrong-guess'' (Some office) (demoDb [alice])))) =
     [False] \<and>
   map lh_failureReason (loginHistories (snd (login (demoEnv noon ''A'' noFault) ''alice@x.io''
                                          ''wrong-guess'' (Some office) (demoDb [alice])))) =
     [Some ''Incorrect password''] \<and>
   securityAlerts (snd (login (demoEnv noon ''A'' noFault) ''alice@x.io'' ''wrong-guess''
                          (Some office) (demoDb [alice]))) = []"
  by code_simp

text \<open>
  Claim C10: for every existing SessionActivity row whose user exists, with unique user
  identifiers and a database that accepts the writes, \<open>forceLogout\<close> succeeds, marks
  exactly the active rows bearing that row's session token inactive with the logout
  reason \<open>forced_by_admin\<close> and the logout time, and sets the owning user's
  \<open>currentSessionToken\<close> to null only when it equalled that session token (and the row
  read was active); when it did not match, the user table is left unchanged. Login
  history and alerts are not written.
\<close>

theorem forceLogout_effect:
  assumes found: "find (\<lambda>r. sa_id r = sessionId) (sessionActivities db) = Some session"
    and owner: "userFindUnique (sa_userId session) db = Some owner"
    and keys: "distinct (map u_id (users db))"
    and up: "\<not> writeFails env SessionActivityTable" "\<not> writeFails env UserTable"
  shows "\<exists>db'. forceLogout env sessionId adminId db =
           (Inr \<lparr> fl_success = True, fl_userId = sa_userId session,
                   fl_userEmail = u_email owner \<rparr>, db') \<and>
     sessionActivities db' =
       map (\<lambda>r. if sa_sessionToken r = sa_sessionToken session \<and> sa_isActive r
                then r\<lparr> sa_isActive := False, sa_logoutAt := Some (clock env),
                        sa_logoutReason := Some ''forced_by_admin'' \<rparr>
                else r) (sessionActivities db) \<and>
     users db' =
       (if sa_isActive session \<and> u_currentSessionToken owner = Some (sa_sessionToken session)
        then map (\<lambda>u. if u_id u = sa_userId session
                       then u\<lparr> u_currentSessionToken := None, u_updatedAt := clock env \<rparr>
                       else u) (users db)
        else users db) \<and>
     loginHistories db' = loginHistories db \<and> securityAlerts db' = securityAlerts db"
proof -
  have same: "r \<in> set (users db) \<Longrightarrow> u_id r = sa_userId session \<Longrightarrow> r = owner" for r
    using find_unique_row[OF keys] owner by (simp add: userFindUnique_def)
  have m1: "u_currentSessionToken owner = Some (sa_sessionToken session) \<Longrightarrow>
     map (\<lambda>r. if u_id r = sa_userId session \<and> u_currentSessionToken r = Some (sa_sessionToken session)
              then r\<lparr> u_currentSessionToken := None, u_updatedAt := clock env \<rparr> else r) (users db) =
     map (\<lambda>u. if u_id u = sa_userId session
                       then u\<lparr> u_currentSessionToken := None, u_updatedAt := clock env \<rparr>
                       else u) (users db)"
    using same by auto
  have m2: "u_currentSessionToken owner \<noteq> Some (sa_sessionToken session) \<Longrightarrow>
     map (\<lambda>r. if u_id r = sa_userId session \<and> u_currentSessionToken r = Some (sa_sessionToken session)
              then r\<lparr> u_currentSessionToken := None, u_updatedAt := clock env \<rparr> else r) (users db) =
     users db"
    by (rule map_idI) (use same in auto)
  show ?thesis
    using found owner up m1 m2
    by (auto simp: forceLogout_def bindIO_def readIO_def returnIO_def invalidateSession_def
          sessionActivityUpdateMany_def userUpdateMany_def guardWrite_def)
qed

text \<open>
  An administrator forces Alice's session (row 101) out right after her login: the row
  becomes inactive and her current session token is cleared.
\<close>

theorem forceLogout_effect_witness:
  "find (\<lambda>r. sa_id r = 101) (sessionActivities afterLogin) \<noteq> None \<and>
   userFindUnique 1 afterLogin \<noteq> None \<and>
   distinct (map u_id (users afterLogin)) \<and>
   \<not> writeFails (demoEnv afternoon ''B'' noFault) SessionActivityTable \<and>
   \<not> writeFails (demoEnv afternoon ''B'' noFault) UserTable \<and>
   currentTokenOf 1 afterLogin = Some ''access-A'' \<and>
   fst (forceLogout (demoEnv afternoon ''B'' noFault) 101 9 afterLogin) =
     Inr \<lparr> fl_success = True, fl_userId = 1, fl_userEmail = ''alice@x.io'' \<rparr> \<and>
   currentTokenOf 1 (snd (forceLogout (demoEnv afternoon ''B'' noFault) 101 9 afterLogin)) = None \<and>
   map sa_logoutReason
     (sessionActivities (snd (forceLogout (demoEnv afternoon ''B'' noFault) 101 9 afterLogin))) =
     [Some ''forced_by_admin'']"
proof -
  define session where "session = the (find (\<lambda>r. sa_id r = 101) (sessionActivities afterLogin))"
  define owner where "owner = the (userFindUnique 1 afterLogin)"
  have f0: "find (\<lambda>r. sa_id r = 101) (sessionActivities afterLogin) \<noteq> None"
    and o0: "userFindUnique 1 afterLogin \<noteq> None"
    and uid: "sa_userId (the (find (\<lambda>r. sa_id r = 101) (sessionActivities afterLogin))) = 1"
    and em: "u_email (the (userFindUnique 1 afterLogin)) = ''alice@x.io''"
    and keys: "distinct (map u_id (users afterLogin))"
    and up: "\<not> writeFails (demoEnv afternoon ''B'' noFault) SessionActivityTable"
            "\<not> writeFails (demoEnv afternoon ''B'' noFault) UserTable"
    by code_simp+
  have c: "currentTokenOf 1 afterLogin = Some ''access-A''"
    "currentTokenOf 1 (snd (forceLogout (demoEnv afternoon ''B'' noFault) 101 9 afterLogin)) = None"
    "map sa_logoutReason
     (sessionActivities (snd (forceLogout (demoEnv afternoon ''B'' noFault) 101 9 afterLogin))) =
     [Some ''forced_by_admin'']"
    by code_simp+
  have found: "find (\<lambda>r. sa_id r = 101) (sessionActivities afterLogin) = Some session"
    using f0 by (simp add: session_def)
  have own: "userFindUnique (sa_userId session) afterLogin = Some owner"
    using o0 uid by (simp add: session_def owner_def)
  from forceLogout_effect [OF found own keys up, of 9] obtain db' where
    "forceLogout (demoEnv afternoon ''B'' noFault) 101 9 afterLogin =
           (Inr \<lparr> fl_success = True, fl_userId = sa_userId session,
                   fl_userEmail = u_email owner \<rparr>, db')"
    by blast
  then have "fst (forceLogout (demoEnv afternoon ''B'' noFault) 101 9 afterLogin) =
     Inr \<lparr> fl_success = True, fl_userId = 1, fl_userEmail = ''alice@x.io'' \<rparr>"
    using uid em by (simp add: session_def owner_def)
  then show ?thesis using f0 o0 keys up c by simp
qed


end
